theory Spec2Isabelle
  imports Complex_Main "HOL-Library.AList"
begin

section \<open>Common data\<close>

text \<open>
  The two experiment scripts \<^verbatim>\<open>experiments/tfi_ite_peps.py\<close> and
  \<^verbatim>\<open>experiments/rqc_statevector.py\<close> are embedded function by function.
  Python integers are \<^typ>\<open>int\<close>, Python floats are idealised as \<^typ>\<open>real\<close>,
  exceptions are values of \<open>error + 'a\<close>.
\<close>

datatype error = ValueError | ZeroDivisionError

type_synonym coord = "int \<times> int"
type_synonym edge = "coord \<times> coord"

text \<open>
  \<^verbatim>\<open>np.ndindex(m, n)\<close>: the row-major enumeration of the index pairs of an array of shape
  \<open>(m, n)\<close>. NumPy refuses a negative dimension with a \<^verbatim>\<open>ValueError\<close>
  (negative dimensions are not allowed) when the iterator is built, that is before
  the first iteration of the loop that consumes it.
\<close>

definition ndindex :: "int \<Rightarrow> int \<Rightarrow> error + coord list" where
  "ndindex m n =
     (if m < 0 \<or> n < 0 then Inl ValueError
      else Inr (concat (map (\<lambda>i. map (\<lambda>j. (i, j)) [0..n - 1]) [0..m - 1])))"

section \<open>Transverse-field Ising model, imaginary time evolution on a PEPS\<close>

subsection \<open>The collaborators\<close>

text \<open>
  The script works through a tensor backend (\<^verbatim>\<open>tensorbackends\<close>, NumPy, SciPy) and through
  the PEPS container and the site operations of \<^verbatim>\<open>koala.peps\<close>. Both are taken as
  parameters: a record of operations over a type \<open>'t\<close> of tensors and a type \<open>'q\<close> of
  grid states. Every definition below is the script's code over these operations.
\<close>

datatype svd_option = ImplicitRandomizedSVD int

record 't backend =
  np_array :: "complex list list \<Rightarrow> 't"
  np_einsum :: "string \<Rightarrow> 't \<Rightarrow> 't \<Rightarrow> 't"
  reshape :: "'t \<Rightarrow> nat list \<Rightarrow> 't"
  scale :: "'t \<Rightarrow> real \<Rightarrow> 't"
  expm :: "'t \<Rightarrow> 't"
  astensor :: "string \<Rightarrow> 't \<Rightarrow> 't"
  unwrap :: "'t \<Rightarrow> 't"
  einsvd :: "string \<Rightarrow> 't \<Rightarrow> 't \<times> 't \<times> 't"
  tpower :: "'t \<Rightarrow> nat \<Rightarrow> 't"
  einsum :: "string \<Rightarrow> 't \<Rightarrow> 't \<Rightarrow> 't"

record ('t, 'q) koala =
  contract_z :: "'t \<Rightarrow> 't \<Rightarrow> 't"
  reduce_x :: "'t \<Rightarrow> 't \<Rightarrow> svd_option \<Rightarrow> 't \<times> 't"
  reduce_y :: "'t \<Rightarrow> 't \<Rightarrow> svd_option \<Rightarrow> 't \<times> 't"
  peps_random :: "int \<Rightarrow> int \<Rightarrow> int \<Rightarrow> string \<Rightarrow> 'q"
  getitem :: "'q \<Rightarrow> coord \<Rightarrow> 't"
  setitem :: "'q \<Rightarrow> coord \<Rightarrow> 't \<Rightarrow> 'q"
  site_normalize :: "'q \<Rightarrow> 'q"
  get_estimated_flops :: "real"

subsection \<open>Local operators\<close>

definition PAULI_X :: "'t backend \<Rightarrow> 't" where
  "PAULI_X B = np_array B [[0, 1], [1, 0]]"

definition PAULI_Z :: "'t backend \<Rightarrow> 't" where
  "PAULI_Z B = np_array B [[1, 0], [0, - 1]]"

definition PAULI_ZZ :: "'t backend \<Rightarrow> 't" where
  "PAULI_ZZ B = np_einsum B ''ij,kl->ikjl'' (PAULI_Z B) (PAULI_Z B)"

definition one_site_operator :: "'t backend \<Rightarrow> 't \<Rightarrow> 't" where
  "one_site_operator B tsr = reshape B tsr [1, 1, 1, 1, 2, 2]"

definition horizontal_pair_site_operator :: "'t backend \<Rightarrow> 't \<Rightarrow> 't \<times> 't" where
  "horizontal_pair_site_operator B tsr =
     (case einsvd B ''xyuv->xys,uvs'' tsr of (xy, s, uv) \<Rightarrow>
        let s = tpower B s 2;
            xy = einsum B ''xys,s->()s()()xy'' xy s;
            uv = einsum B ''uvs,s->()()()suv'' uv s
        in (xy, uv))"

definition vertical_pair_site_operator :: "'t backend \<Rightarrow> 't \<Rightarrow> 't \<times> 't" where
  "vertical_pair_site_operator B tsr =
     (case einsvd B ''xyuv->sxy,suv'' tsr of (xy, s, uv) \<Rightarrow>
        let s = tpower B s 2;
            xy = einsum B ''sxy,s->()()s()xy'' xy s;
            uv = einsum B ''suv,s->s()()()uv'' uv s
        in (xy, uv))"

text \<open>
  Lines 56 and 57 of \<^verbatim>\<open>build_tfi_trottered_step_operators\<close>: the exponentiated one-site
  and two-site terms, named here so that they can be spoken about on their own.
\<close>

definition one_site_term :: "'t backend \<Rightarrow> real \<Rightarrow> real \<Rightarrow> 't" where
  "one_site_term B h tau =
     one_site_operator B (astensor B ''numpy'' (expm B (scale B (PAULI_X B) (h * tau))))"

definition exp_pauli_zz :: "'t backend \<Rightarrow> real \<Rightarrow> real \<Rightarrow> 't" where
  "exp_pauli_zz B J tau =
     astensor B ''numpy''
       (reshape B (expm B (scale B (reshape B (PAULI_ZZ B) [4, 4]) (J * tau))) [2, 2, 2, 2])"

subsection \<open>Building the operators of one Trotter step\<close>

text \<open>
  The body of the first loop of \<^verbatim>\<open>build_tfi_trottered_step_operators\<close>. The loop state is
  the set \<^verbatim>\<open>touched_sites\<close> and the dictionary \<^verbatim>\<open>hoperators\<close>; a Python dictionary
  keeps its keys in insertion order and is iterated in that order later, so it is an
  association list, stored into with \<^const>\<open>AList.update\<close>.
\<close>

definition horizontal_body ::
  "('t, 'q) koala \<Rightarrow> 't \<Rightarrow> 't \<times> 't \<Rightarrow> coord set \<times> (edge \<times> 't \<times> 't) list \<Rightarrow> coord
     \<Rightarrow> coord set \<times> (edge \<times> 't \<times> 't) list" where
  "horizontal_body K one_site h_two_site st ij =
     (case st of (touched_sites, hoperators) \<Rightarrow>
      case ij of (i, j) \<Rightarrow>
        let a = (i, j); b = (i, j + 1);
            op_a = fst h_two_site; op_b = snd h_two_site;
            (op_a, touched_sites) =
              (if a \<notin> touched_sites
               then (contract_z K one_site op_a, insert a touched_sites)
               else (op_a, touched_sites));
            (op_b, touched_sites) =
              (if b \<notin> touched_sites
               then (contract_z K one_site op_b, insert b touched_sites)
               else (op_b, touched_sites))
        in (touched_sites, AList.update (a, b) (op_a, op_b) hoperators))"

definition horizontal_pass ::
  "('t, 'q) koala \<Rightarrow> 't \<Rightarrow> 't \<times> 't \<Rightarrow> int \<Rightarrow> int
     \<Rightarrow> error + coord set \<times> (edge \<times> 't \<times> 't) list" where
  "horizontal_pass K one_site h_two_site nrows ncols =
     (case ndindex nrows (ncols - 1) of
        Inl e \<Rightarrow> Inl e
      | Inr ijs \<Rightarrow> Inr (foldl (horizontal_body K one_site h_two_site) ({}, []) ijs))"

definition vertical_body ::
  "'t \<times> 't \<Rightarrow> (edge \<times> 't \<times> 't) list \<Rightarrow> coord \<Rightarrow> (edge \<times> 't \<times> 't) list" where
  "vertical_body v_two_site voperators ij =
     (case ij of (i, j) \<Rightarrow>
        AList.update ((i, j), (i + 1, j)) (fst v_two_site, snd v_two_site) voperators)"

definition vertical_pass ::
  "'t \<times> 't \<Rightarrow> int \<Rightarrow> int \<Rightarrow> error + (edge \<times> 't \<times> 't) list" where
  "vertical_pass v_two_site nrows ncols =
     (case ndindex (nrows - 1) ncols of
        Inl e \<Rightarrow> Inl e
      | Inr ijs \<Rightarrow> Inr (foldl (vertical_body v_two_site) [] ijs))"

definition to_backend :: "'t backend \<Rightarrow> string \<Rightarrow> edge \<times> 't \<times> 't \<Rightarrow> edge \<times> 't \<times> 't" where
  "to_backend B backend entry =
     (case entry of (idx, (a, b)) \<Rightarrow>
        (idx, (astensor B backend (unwrap B a), astensor B backend (unwrap B b))))"

definition build_tfi_trottered_step_operators ::
  "'t backend \<Rightarrow> ('t, 'q) koala \<Rightarrow> real \<Rightarrow> real \<Rightarrow> int \<Rightarrow> int \<Rightarrow> real \<Rightarrow> string
     \<Rightarrow> error + (edge \<times> 't \<times> 't) list \<times> (edge \<times> 't \<times> 't) list" where
  "build_tfi_trottered_step_operators B K J h nrows ncols tau backend =
     (let one_site = one_site_term B h tau;
          exp_zz = exp_pauli_zz B J tau;
          h_two_site = horizontal_pair_site_operator B exp_zz;
          v_two_site = vertical_pair_site_operator B exp_zz
      in case horizontal_pass K one_site h_two_site nrows ncols of
           Inl e \<Rightarrow> Inl e
         | Inr (touched_sites, hoperators) \<Rightarrow>
             (case vertical_pass v_two_site nrows ncols of
                Inl e \<Rightarrow> Inl e
              | Inr voperators \<Rightarrow>
                  Inr (map (to_backend B backend) hoperators,
                       map (to_backend B backend) voperators)))"

subsection \<open>Applying one Trotter step\<close>

text \<open>
  The bodies of the two loops of \<^verbatim>\<open>apply_trottered_step_operators\<close>. The grid state is
  mutated in place by the script and passed along here. The tuple assignment stores
  at \<open>a\<close> first, then at \<open>b\<close>. The \<^verbatim>\<open>Timer\<close> context managers only start and stop a
  profiling timer and are left out.
\<close>

definition update_horizontal ::
  "('t, 'q) koala \<Rightarrow> int \<Rightarrow> 'q \<Rightarrow> edge \<times> 't \<times> 't \<Rightarrow> 'q" where
  "update_horizontal K maxrank qstate entry =
     (case entry of ((a, b), (op_a, op_b)) \<Rightarrow>
        let qstate = setitem K qstate a (contract_z K (getitem K qstate a) op_a);
            qstate = setitem K qstate b (contract_z K (getitem K qstate b) op_b);
            r = reduce_y K (getitem K qstate a) (getitem K qstate b)
                  (ImplicitRandomizedSVD maxrank)
        in setitem K (setitem K qstate a (fst r)) b (snd r))"

definition update_vertical ::
  "('t, 'q) koala \<Rightarrow> int \<Rightarrow> 'q \<Rightarrow> edge \<times> 't \<times> 't \<Rightarrow> 'q" where
  "update_vertical K maxrank qstate entry =
     (case entry of ((a, b), (op_a, op_b)) \<Rightarrow>
        let qstate = setitem K qstate a (contract_z K (getitem K qstate a) op_a);
            qstate = setitem K qstate b (contract_z K (getitem K qstate b) op_b);
            r = reduce_x K (getitem K qstate a) (getitem K qstate b)
                  (ImplicitRandomizedSVD maxrank)
        in setitem K (setitem K qstate a (fst r)) b (snd r))"

definition apply_trottered_step_operators ::
  "('t, 'q) koala \<Rightarrow> 'q \<Rightarrow> (edge \<times> 't \<times> 't) list \<Rightarrow> (edge \<times> 't \<times> 't) list \<Rightarrow> int \<Rightarrow> 'q" where
  "apply_trottered_step_operators K qstate hoperators voperators maxrank =
     foldl (update_vertical K maxrank)
       (foldl (update_horizontal K maxrank) qstate hoperators) voperators"

definition horizontal_links :: "int \<Rightarrow> int \<Rightarrow> error + edge list" where
  "horizontal_links nrows ncols =
     (case ndindex nrows (ncols - 1) of
        Inl e \<Rightarrow> Inl e
      | Inr ijs \<Rightarrow> Inr (map (\<lambda>(i, j). ((i, j), (i, j + 1))) ijs))"

definition vertical_links :: "int \<Rightarrow> int \<Rightarrow> error + edge list" where
  "vertical_links nrows ncols =
     (case ndindex (nrows - 1) ncols of
        Inl e \<Rightarrow> Inl e
      | Inr ijs \<Rightarrow> Inr (map (\<lambda>(i, j). ((i, j), (i + 1, j))) ijs))"

subsection \<open>The simulation loop and the entry point\<close>

text \<open>
  The loop \<^verbatim>\<open>for i in range(steps)\<close> of \<^verbatim>\<open>run_peps\<close>, over the list of the values of
  \<open>i\<close>. Python's \<^verbatim>\<open>%\<close> raises \<^verbatim>\<open>ZeroDivisionError\<close> on a zero divisor and otherwise
  is the floored remainder, as \<open>mod\<close> on \<^typ>\<open>int\<close> is.
\<close>

fun run_steps ::
  "('t, 'q) koala \<Rightarrow> (edge \<times> 't \<times> 't) list \<times> (edge \<times> 't \<times> 't) list \<Rightarrow> int \<Rightarrow> int
     \<Rightarrow> 'q \<Rightarrow> int list \<Rightarrow> error + 'q" where
  "run_steps K operators normfreq maxrank qstate [] = Inr qstate"
| "run_steps K operators normfreq maxrank qstate (i # is) =
     (let qstate = apply_trottered_step_operators K qstate (fst operators) (snd operators) maxrank
      in if normfreq = 0 then Inl ZeroDivisionError
         else run_steps K operators normfreq maxrank
                (if (i + 1) mod normfreq = 0 then site_normalize K qstate else qstate) is)"

definition run_peps ::
  "('t, 'q) koala \<Rightarrow> (edge \<times> 't \<times> 't) list \<times> (edge \<times> 't \<times> 't) list \<Rightarrow> int \<Rightarrow> int \<Rightarrow> int
     \<Rightarrow> int \<Rightarrow> string \<Rightarrow> real \<Rightarrow> int \<Rightarrow> bool \<Rightarrow> error + 'q \<times> real option" where
  "run_peps K operators nrow ncol steps normfreq backend threshold maxrank randomized_svd =
     (let using_ctf = (backend \<in> {''ctf'', ''ctfview''});
          qstate = peps_random K nrow ncol maxrank backend
      in case run_steps K operators normfreq maxrank qstate [0..steps - 1] of
           Inl e \<Rightarrow> Inl e
         | Inr qstate \<Rightarrow>
             Inr (qstate, if using_ctf then Some (get_estimated_flops K) else None))"

text \<open>
  The command line arguments, in the order in which \<^verbatim>\<open>build_cli_parser\<close> declares them:
  nrow, ncol, coupling, field, steps, tau, normfreq, backend, threshold, maxrank,
  randomized\_svd. \<^verbatim>\<open>main\<close> prints its report and returns nothing; the model returns
  what \<^verbatim>\<open>run_peps\<close> returned, which is all that the report is made of.
\<close>

datatype args = Args int int real real int real int string real int bool

fun main :: "'t backend \<Rightarrow> ('t, 'q) koala \<Rightarrow> args \<Rightarrow> error + 'q \<times> real option" where
  "main B K (Args nrow ncol coupling field steps tau normfreq backend threshold maxrank
               randomized_svd) =
     (case build_tfi_trottered_step_operators B K coupling field nrow ncol tau backend of
        Inl e \<Rightarrow> Inl e
      | Inr operators \<Rightarrow>
          run_peps K operators nrow ncol steps normfreq backend threshold maxrank
            randomized_svd)"

subsection \<open>The calls of the entry point up to the creation of the state\<close>

text \<open>
  The definitions above give what the script computes. What it asks of its
  collaborators before it fails or goes on is a matter of order, and is given here a
  second time as a log: one entry for each operation of the tensor backend and of
  \<^verbatim>\<open>koala.peps\<close>, in the order in which Python evaluates them. Line 56 multiplies,
  exponentiates, converts and reshapes; line 57 reshapes, multiplies, exponentiates,
  reshapes and converts; each factorization decomposes, squares and contracts twice.
\<close>

datatype call =
    GetBackend string
  | CallScale
  | CallExpm
  | CallAstensor string
  | CallReshape "nat list"
  | CallEinsvd string
  | CallPower nat
  | CallEinsum string
  | CallUnwrap
  | CallContractZ
  | CallPepsRandom int int int string

definition one_site_term_calls :: "call list" where
  "one_site_term_calls =
     [CallScale, CallExpm, CallAstensor ''numpy'', CallReshape [1, 1, 1, 1, 2, 2]]"

definition exp_pauli_zz_calls :: "call list" where
  "exp_pauli_zz_calls =
     [CallReshape [4, 4], CallScale, CallExpm, CallReshape [2, 2, 2, 2], CallAstensor ''numpy'']"

definition horizontal_pair_site_operator_calls :: "call list" where
  "horizontal_pair_site_operator_calls =
     [CallEinsvd ''xyuv->xys,uvs'', CallPower 2,
      CallEinsum ''xys,s->()s()()xy'', CallEinsum ''uvs,s->()()()suv'']"

definition vertical_pair_site_operator_calls :: "call list" where
  "vertical_pair_site_operator_calls =
     [CallEinsvd ''xyuv->sxy,suv'', CallPower 2,
      CallEinsum ''sxy,s->()()s()xy'', CallEinsum ''suv,s->s()()()uv'']"

text \<open>
  The body of the horizontal loop with its log: it calls \<^verbatim>\<open>sites.contract_z\<close> for each
  of the two sites that is not yet in \<^verbatim>\<open>touched_sites\<close>, the second test being made after
  the first site has been added.
\<close>

definition horizontal_body_traced ::
  "('t, 'q) koala \<Rightarrow> 't \<Rightarrow> 't \<times> 't
     \<Rightarrow> (coord set \<times> (edge \<times> 't \<times> 't) list) \<times> call list \<Rightarrow> coord
     \<Rightarrow> (coord set \<times> (edge \<times> 't \<times> 't) list) \<times> call list" where
  "horizontal_body_traced K one_site h_two_site stl ij =
     (case stl of (st, calls) \<Rightarrow>
      case ij of (i, j) \<Rightarrow>
        (horizontal_body K one_site h_two_site st ij,
         calls @ (if (i, j) \<notin> fst st then [CallContractZ] else [])
             @ (if (i, j + 1) \<notin> insert (i, j) (fst st) then [CallContractZ] else [])))"

definition build_tfi_trottered_step_operators_traced ::
  "'t backend \<Rightarrow> ('t, 'q) koala \<Rightarrow> real \<Rightarrow> real \<Rightarrow> int \<Rightarrow> int \<Rightarrow> real \<Rightarrow> string
     \<Rightarrow> call list \<times> (error + (edge \<times> 't \<times> 't) list \<times> (edge \<times> 't \<times> 't) list)" where
  "build_tfi_trottered_step_operators_traced B K J h nrows ncols tau backend =
     (let calls = [GetBackend ''numpy'', GetBackend backend];
          one_site = one_site_term B h tau;
          calls = calls @ one_site_term_calls;
          exp_zz = exp_pauli_zz B J tau;
          calls = calls @ exp_pauli_zz_calls;
          h_two_site = horizontal_pair_site_operator B exp_zz;
          calls = calls @ horizontal_pair_site_operator_calls;
          v_two_site = vertical_pair_site_operator B exp_zz;
          calls = calls @ vertical_pair_site_operator_calls
      in case ndindex nrows (ncols - 1) of
           Inl e \<Rightarrow> (calls, Inl e)
         | Inr ijs \<Rightarrow>
             (case foldl (horizontal_body_traced K one_site h_two_site) (({}, []), calls) ijs of
                ((touched_sites, hoperators), calls) \<Rightarrow>
                  (case vertical_pass v_two_site nrows ncols of
                     Inl e \<Rightarrow> (calls, Inl e)
                   | Inr voperators \<Rightarrow>
                       (calls @ concat (map (\<lambda>entry. [CallUnwrap, CallAstensor backend,
                                                     CallUnwrap, CallAstensor backend])
                                       (hoperators @ voperators)),
                        Inr (map (to_backend B backend) hoperators,
                             map (to_backend B backend) voperators)))))"

text \<open>
  \<^verbatim>\<open>main\<close> up to line 120 of \<^verbatim>\<open>run_peps\<close>: the \<^verbatim>\<open>Timer\<close> of line 137 looks the backend
  up, the operators are built, then the state is asked of \<^verbatim>\<open>peps.random\<close>. The result
  is the log of the calls made so far, and the error if the run has stopped, the state
  otherwise. The profiling timer and the flop counter, which exist for the ctf
  backends only, are not logged.
\<close>

fun main_until_state ::
  "'t backend \<Rightarrow> ('t, 'q) koala \<Rightarrow> args \<Rightarrow> call list \<times> (error + 'q)" where
  "main_until_state B K (Args nrow ncol coupling field steps tau normfreq backend threshold
                           maxrank randomized_svd) =
     (case build_tfi_trottered_step_operators_traced B K coupling field nrow ncol tau backend of
        (calls, Inl e) \<Rightarrow> (GetBackend backend # calls, Inl e)
      | (calls, Inr operators) \<Rightarrow>
          (GetBackend backend # calls @ [CallPepsRandom nrow ncol maxrank backend],
           Inr (peps_random K nrow ncol maxrank backend)))"

subsection \<open>The free interpretation of the collaborators\<close>

text \<open>
  Tensors as terms: every operation of the backend and of \<^verbatim>\<open>koala.peps\<close> is a
  constructor, so that a tensor is the record of the calls that made it. The grid
  state is the function from coordinates to such terms: \<^verbatim>\<open>peps.random\<close> fills every
  site with a fresh random tensor, \<^verbatim>\<open>site_normalize\<close> rescales every site tensor.
  What the script asks of its collaborators, and in which order, can be read off the
  terms it produces under this interpretation.
\<close>

datatype sym =
    NpArray "complex list list"
  | NpEinsum string sym sym
  | Reshape sym "nat list"
  | Scale sym real
  | Expm sym
  | Astensor string sym
  | Unwrap sym
  | EinsvdU string sym
  | EinsvdS string sym
  | EinsvdV string sym
  | Power sym nat
  | Einsum string sym sym
  | ContractZ sym sym
  | ReduceX1 sym sym svd_option
  | ReduceX2 sym sym svd_option
  | ReduceY1 sym sym svd_option
  | ReduceY2 sym sym svd_option
  | RandomSite int int int string coord
  | SiteNormalize sym

definition sym_backend :: "sym backend" where
  "sym_backend =
     \<lparr>np_array = NpArray, np_einsum = NpEinsum, reshape = Reshape, scale = Scale,
      expm = Expm, astensor = Astensor, unwrap = Unwrap,
      einsvd = (\<lambda>p t. (EinsvdU p t, EinsvdS p t, EinsvdV p t)),
      tpower = Power, einsum = Einsum\<rparr>"

definition sym_koala :: "(sym, coord \<Rightarrow> sym) koala" where
  "sym_koala =
     \<lparr>contract_z = ContractZ,
      reduce_x = (\<lambda>a b opt. (ReduceX1 a b opt, ReduceX2 a b opt)),
      reduce_y = (\<lambda>a b opt. (ReduceY1 a b opt, ReduceY2 a b opt)),
      peps_random = (\<lambda>nrow ncol maxrank backend. RandomSite nrow ncol maxrank backend),
      getitem = (\<lambda>q c. q c),
      setitem = (\<lambda>q c t. q(c := t)),
      site_normalize = (\<lambda>q c. SiteNormalize (q c)),
      get_estimated_flops = 0\<rparr>"

text \<open>
  A stored factor has received the field term when it is the contraction of the
  one-site operator into something; \<open>field_count\<close> counts, for a coordinate, the
  stored factors acting on it that have received it (the first factor of an entry acts
  on the first site of its edge, the second factor on the second site).
\<close>

definition field_folded :: "sym \<Rightarrow> sym \<Rightarrow> bool" where
  "field_folded one_site t = (case t of ContractZ x y \<Rightarrow> x = one_site | _ \<Rightarrow> False)"

definition field_count :: "sym \<Rightarrow> (edge \<times> sym \<times> sym) list \<Rightarrow> coord \<Rightarrow> nat" where
  "field_count one_site hoperators c =
     length (filter (\<lambda>entry. fst (fst entry) = c \<and> field_folded one_site (fst (snd entry)))
               hoperators)
     + length (filter (\<lambda>entry. snd (fst entry) = c \<and> field_folded one_site (snd (snd entry)))
                 hoperators)"

subsection \<open>What the two loops store\<close>

text \<open>
  Auxiliary notions for the statements below: the row-major enumeration of \<open>ndindex\<close>
  row by row over the naturals, the sites that the horizontal loop has visited after
  row \<open>i\<close>, and the entries that the horizontal and the vertical loop store for an
  index pair.
\<close>

definition row :: "nat \<Rightarrow> nat \<Rightarrow> coord list" where
  "row n i = map (\<lambda>j. (int i, int j)) [0..<n]"

definition v_entry :: "'t \<times> 't \<Rightarrow> coord \<Rightarrow> edge \<times> 't \<times> 't" where
  "v_entry v2 ij = (case ij of (i, j) \<Rightarrow> (((i, j), (i + 1, j)), (fst v2, snd v2)))"

definition h_entry :: "('t, 'q) koala \<Rightarrow> 't \<Rightarrow> 't \<times> 't \<Rightarrow> coord \<Rightarrow> edge \<times> 't \<times> 't" where
  "h_entry K one_site h_two_site ij =
     (case ij of (i, j) \<Rightarrow>
        (((i, j), (i, j + 1)),
         (if j = 0 then contract_z K one_site (fst h_two_site) else fst h_two_site,
          contract_z K one_site (snd h_two_site))))"

definition row_sites :: "nat \<Rightarrow> nat \<Rightarrow> coord set" where
  "row_sites i n = (if n = 0 then {} else (\<lambda>j. (int i, int j)) ` {..n})"

section \<open>A numeric interpretation of the backend\<close>

text \<open>
  Dense tensors over the complex numbers, with exact arithmetic in place of floating
  point: a shape and the element at each multi-index. Only what the operator
  factorization of the script needs is interpreted: the einsum patterns that occur in
  the script, reshaping in row-major order, the matrix exponential of a diagonal
  matrix (the two-site term \<open>Z \<otimes> Z\<close> is diagonal), and elementwise powers. A tensor
  already is a backend tensor, so \<^verbatim>\<open>astensor\<close> and \<^verbatim>\<open>unwrap\<close> return it. The
  decomposition \<^verbatim>\<open>einsvd\<close> stays a parameter.
\<close>

record ntensor =
  shape :: "nat list"
  el :: "nat list \<Rightarrow> complex"

fun ravel :: "nat list \<Rightarrow> nat list \<Rightarrow> nat" where
  "ravel (d # ds) (i # is) = i * prod_list ds + ravel ds is"
| "ravel ds is = 0"

fun unravel :: "nat list \<Rightarrow> nat \<Rightarrow> nat list" where
  "unravel [] k = []"
| "unravel (d # ds) k = (k div prod_list ds) # unravel ds (k mod prod_list ds)"

definition n_array :: "complex list list \<Rightarrow> ntensor" where
  "n_array rows =
     \<lparr>shape = [length rows, (case rows of [] \<Rightarrow> 0 | r # rs \<Rightarrow> length r)],
      el = (\<lambda>idx. rows ! (idx ! 0) ! (idx ! 1))\<rparr>"

definition n_reshape :: "ntensor \<Rightarrow> nat list \<Rightarrow> ntensor" where
  "n_reshape t ds = \<lparr>shape = ds, el = (\<lambda>idx. el t (unravel (shape t) (ravel ds idx)))\<rparr>"

definition n_scale :: "ntensor \<Rightarrow> real \<Rightarrow> ntensor" where
  "n_scale t r = \<lparr>shape = shape t, el = (\<lambda>idx. el t idx * complex_of_real r)\<rparr>"

definition n_expm_diagonal :: "ntensor \<Rightarrow> ntensor" where
  "n_expm_diagonal t =
     \<lparr>shape = shape t, el = (\<lambda>idx. if idx ! 0 = idx ! 1 then exp (el t idx) else 0)\<rparr>"

definition n_power :: "ntensor \<Rightarrow> nat \<Rightarrow> ntensor" where
  "n_power t k = \<lparr>shape = shape t, el = (\<lambda>idx. el t idx ^ k)\<rparr>"

definition n_einsum :: "string \<Rightarrow> ntensor \<Rightarrow> ntensor \<Rightarrow> ntensor" where
  "n_einsum p a b =
     (if p = ''ij,kl->ikjl'' then
        \<lparr>shape = [shape a ! 0, shape b ! 0, shape a ! 1, shape b ! 1],
         el = (\<lambda>idx. el a [idx ! 0, idx ! 2] * el b [idx ! 1, idx ! 3])\<rparr>
      else if p = ''xys,s->()s()()xy'' then
        \<lparr>shape = [1, shape a ! 2, 1, 1, shape a ! 0, shape a ! 1],
         el = (\<lambda>idx. el a [idx ! 4, idx ! 5, idx ! 1] * el b [idx ! 1])\<rparr>
      else if p = ''uvs,s->()()()suv'' then
        \<lparr>shape = [1, 1, 1, shape a ! 2, shape a ! 0, shape a ! 1],
         el = (\<lambda>idx. el a [idx ! 4, idx ! 5, idx ! 3] * el b [idx ! 3])\<rparr>
      else if p = ''sxy,s->()()s()xy'' then
        \<lparr>shape = [1, 1, shape a ! 0, 1, shape a ! 1, shape a ! 2],
         el = (\<lambda>idx. el a [idx ! 2, idx ! 4, idx ! 5] * el b [idx ! 2])\<rparr>
      else if p = ''suv,s->s()()()uv'' then
        \<lparr>shape = [shape a ! 0, 1, 1, 1, shape a ! 1, shape a ! 2],
         el = (\<lambda>idx. el a [idx ! 0, idx ! 4, idx ! 5] * el b [idx ! 0])\<rparr>
      else \<lparr>shape = [], el = (\<lambda>idx. 0)\<rparr>)"

definition numeric_backend ::
  "(string \<Rightarrow> ntensor \<Rightarrow> ntensor \<times> ntensor \<times> ntensor) \<Rightarrow> ntensor backend" where
  "numeric_backend svd =
     \<lparr>np_array = n_array, np_einsum = n_einsum, reshape = n_reshape, scale = n_scale,
      expm = n_expm_diagonal, astensor = (\<lambda>name t. t), unwrap = (\<lambda>t. t),
      einsvd = svd, tpower = n_power, einsum = n_einsum\<rparr>"

text \<open>
  What \<^verbatim>\<open>einsvd\<close> owes its caller for the two patterns of the script: three tensors
  \<open>U\<close>, \<open>s\<close> and \<open>V\<close> with \<open>U \<sqdot> diag s \<sqdot> V\<close> equal to the decomposed tensor, the sum
  running over the new index, last in the horizontal pattern and first in the
  vertical one.
\<close>

definition decomposes_h :: "ntensor \<Rightarrow> ntensor \<times> ntensor \<times> ntensor \<Rightarrow> bool" where
  "decomposes_h t usv =
     (case usv of (U, s, V) \<Rightarrow>
        list_all (\<lambda>idx. el t idx =
              (\<Sum>k\<leftarrow>[0..<shape s ! 0]. el U [idx ! 0, idx ! 1, k] * el s [k] * el V [idx ! 2, idx ! 3, k]))
          (map (unravel (shape t)) [0..<prod_list (shape t)]))"

definition decomposes_v :: "ntensor \<Rightarrow> ntensor \<times> ntensor \<times> ntensor \<Rightarrow> bool" where
  "decomposes_v t usv =
     (case usv of (U, s, V) \<Rightarrow>
        list_all (\<lambda>idx. el t idx =
              (\<Sum>k\<leftarrow>[0..<shape s ! 0]. el U [k, idx ! 0, idx ! 1] * el s [k] * el V [k, idx ! 2, idx ! 3]))
          (map (unravel (shape t)) [0..<prod_list (shape t)]))"

text \<open>
  A decomposition of a tensor whose matrix, rows \<open>(x, y)\<close> and columns \<open>(u, v)\<close>, is
  diagonal with real positive entries: \<open>U\<close> and \<open>V\<close> are the identity and \<open>s\<close> is the
  diagonal. It is a singular value decomposition of such a matrix (up to the order of
  the singular values, which does not change any sum over the new index).
\<close>

definition diagonal_svd :: "string \<Rightarrow> ntensor \<Rightarrow> ntensor \<times> ntensor \<times> ntensor" where
  "diagonal_svd p t =
     (let d0 = shape t ! 0; d1 = shape t ! 1; d2 = shape t ! 2; d3 = shape t ! 3;
          s = \<lparr>shape = [d0 * d1],
               el = (\<lambda>idx. el t [idx ! 0 div d1, idx ! 0 mod d1, idx ! 0 div d3, idx ! 0 mod d3])\<rparr>
      in if p = ''xyuv->xys,uvs'' then
           (\<lparr>shape = [d0, d1, d0 * d1],
             el = (\<lambda>idx. if idx ! 0 * d1 + idx ! 1 = idx ! 2 then 1 else 0)\<rparr>,
            s,
            \<lparr>shape = [d2, d3, d0 * d1],
             el = (\<lambda>idx. if idx ! 0 * d3 + idx ! 1 = idx ! 2 then 1 else 0)\<rparr>)
         else
           (\<lparr>shape = [d0 * d1, d0, d1],
             el = (\<lambda>idx. if idx ! 1 * d1 + idx ! 2 = idx ! 0 then 1 else 0)\<rparr>,
            s,
            \<lparr>shape = [d0 * d1, d2, d3],
             el = (\<lambda>idx. if idx ! 1 * d3 + idx ! 2 = idx ! 0 then 1 else 0)\<rparr>))"

text \<open>
  The contraction of a factor pair over the auxiliary gate bond: the bond is the
  second axis of the first horizontal factor and the fourth axis of the second one,
  the third axis of the first vertical factor and the first axis of the second one.
\<close>

definition contract_gate_bond_h :: "ntensor \<times> ntensor \<Rightarrow> ntensor" where
  "contract_gate_bond_h ab =
     (case ab of (a, b) \<Rightarrow>
        \<lparr>shape = [shape a ! 4, shape a ! 5, shape b ! 4, shape b ! 5],
         el = (\<lambda>idx. \<Sum>k\<leftarrow>[0..<shape a ! 1].
                  el a [0, k, 0, 0, idx ! 0, idx ! 1] * el b [0, 0, 0, k, idx ! 2, idx ! 3])\<rparr>)"

definition contract_gate_bond_v :: "ntensor \<times> ntensor \<Rightarrow> ntensor" where
  "contract_gate_bond_v ab =
     (case ab of (a, b) \<Rightarrow>
        \<lparr>shape = [shape a ! 4, shape a ! 5, shape b ! 4, shape b ! 5],
         el = (\<lambda>idx. \<Sum>k\<leftarrow>[0..<shape a ! 2].
                  el a [0, 0, k, 0, idx ! 0, idx ! 1] * el b [k, 0, 0, 0, idx ! 2, idx ! 3])\<rparr>)"

section \<open>The site operations as the specification describes them\<close>

text \<open>
  \<^verbatim>\<open>koala.peps\<close> and \<^verbatim>\<open>koala.peps.sites\<close> are not among the sources. For the claim about
  bond dimensions they are modelled from the specification, on tensors that carry
  their shape and, as a term of the free interpretation, the record of how they were
  made. The first four axes of a tensor are its bond legs; a site tensor has one
  physical leg after them, an operator factor two. The operator factors of the script fix which axis is which bond: the
  gate bond of a horizontal factor pair is axis 1 of the first factor and axis 3 of the
  second one, the gate bond of a vertical pair is axis 2 of the first factor and axis 0
  of the second one.
\<close>

record stensor =
  dims :: "nat list"
  content :: sym

definition spec_contract_z :: "stensor \<Rightarrow> stensor \<Rightarrow> stensor" where
  \<comment> \<open>Modelled from the spec: \<^verbatim>\<open>sites.contract_z\<close> is missing. Section 4.3, step 1: the
      factor is contracted into the site tensor over the physical leg (the last leg of
      the first tensor against the first physical leg of the factor), and a bond leg of
      the factor enlarges the corresponding bond of the site by its dimension.\<close>
  "spec_contract_z a f =
     \<lparr>dims = [dims a ! 0 * dims f ! 0, dims a ! 1 * dims f ! 1, dims a ! 2 * dims f ! 2,
              dims a ! 3 * dims f ! 3] @ butlast (drop 4 (dims a)) @ [dims f ! 5],
      content = ContractZ (content a) (content f)\<rparr>"

definition spec_reduce_y :: "stensor \<Rightarrow> stensor \<Rightarrow> svd_option \<Rightarrow> stensor \<times> stensor" where
  \<comment> \<open>Modelled from the spec: \<^verbatim>\<open>sites.reduce_y\<close> is missing. Section 4.3, step 3: a joint
      SVD across the bond shared by the two sites of a horizontal edge, truncated to the
      top \<open>k\<close> singular values; a bond of dimension at most \<open>k\<close> keeps its dimension.\<close>
  "spec_reduce_y a b opt =
     (case opt of ImplicitRandomizedSVD k \<Rightarrow>
        (\<lparr>dims = (dims a)[1 := min (dims a ! 1) (nat k)],
          content = ReduceY1 (content a) (content b) opt\<rparr>,
         \<lparr>dims = (dims b)[3 := min (dims b ! 3) (nat k)],
          content = ReduceY2 (content a) (content b) opt\<rparr>))"

definition spec_reduce_x :: "stensor \<Rightarrow> stensor \<Rightarrow> svd_option \<Rightarrow> stensor \<times> stensor" where
  \<comment> \<open>Modelled from the spec: \<^verbatim>\<open>sites.reduce_x\<close> is missing. As \<open>spec_reduce_y\<close>, across
      the bond shared by the two sites of a vertical edge.\<close>
  "spec_reduce_x a b opt =
     (case opt of ImplicitRandomizedSVD k \<Rightarrow>
        (\<lparr>dims = (dims a)[2 := min (dims a ! 2) (nat k)],
          content = ReduceX1 (content a) (content b) opt\<rparr>,
         \<lparr>dims = (dims b)[0 := min (dims b ! 0) (nat k)],
          content = ReduceX2 (content a) (content b) opt\<rparr>))"

definition spec_random :: "int \<Rightarrow> int \<Rightarrow> int \<Rightarrow> string \<Rightarrow> coord \<Rightarrow> stensor" where
  \<comment> \<open>Modelled from the spec: \<^verbatim>\<open>peps.random\<close> is missing. Section 3: a random tensor at
      every site, with bond legs of the maximum rank, boundary legs of dimension 1 and a
      physical leg of dimension 2.\<close>
  "spec_random nrow ncol maxrank backend c =
     \<lparr>dims = [if fst c = 0 then 1 else nat maxrank,
              if snd c = ncol - 1 then 1 else nat maxrank,
              if fst c = nrow - 1 then 1 else nat maxrank,
              if snd c = 0 then 1 else nat maxrank, 2],
      content = RandomSite nrow ncol maxrank backend c\<rparr>"

definition spec_koala :: "(stensor, coord \<Rightarrow> stensor) koala" where
  \<comment> \<open>Modelled from the spec: the grid state container of \<^verbatim>\<open>koala.peps\<close> is missing.
      Section 6: get and set by coordinate, and a normalization that rescales every
      site tensor.\<close>
  "spec_koala =
     \<lparr>contract_z = spec_contract_z,
      reduce_x = spec_reduce_x,
      reduce_y = spec_reduce_y,
      peps_random = spec_random,
      getitem = (\<lambda>q c. q c),
      setitem = (\<lambda>q c t. q(c := t)),
      site_normalize = (\<lambda>q c. \<lparr>dims = dims (q c), content = SiteNormalize (content (q c))\<rparr>),
      get_estimated_flops = 0\<rparr>"

text \<open>
  A bond is carried by the tensors of its two sites: it is unchanged, in dimension and
  in values, when both tensors are.
\<close>

definition bond_unchanged :: "(coord \<Rightarrow> stensor) \<Rightarrow> (coord \<Rightarrow> stensor) \<Rightarrow> edge \<Rightarrow> bool" where
  "bond_unchanged q q' e = (q' (fst e) = q (fst e) \<and> q' (snd e) = q (snd e))"

text \<open>
  A horizontal and a vertical factor pair with a gate bond of dimension 4, with the
  shapes that the einsum patterns of the script give them.
\<close>

definition h_factor_a :: stensor where
  "h_factor_a = \<lparr>dims = [1, 4, 1, 1, 2, 2], content = Einsum ''xys,s->()s()()xy'' (NpArray []) (NpArray [])\<rparr>"

definition h_factor_b :: stensor where
  "h_factor_b = \<lparr>dims = [1, 1, 1, 4, 2, 2], content = Einsum ''uvs,s->()()()suv'' (NpArray []) (NpArray [])\<rparr>"

definition v_factor_a :: stensor where
  "v_factor_a = \<lparr>dims = [1, 1, 4, 1, 2, 2], content = Einsum ''sxy,s->()()s()xy'' (NpArray []) (NpArray [])\<rparr>"

definition v_factor_b :: stensor where
  "v_factor_b = \<lparr>dims = [4, 1, 1, 1, 2, 2], content = Einsum ''suv,s->s()()()uv'' (NpArray []) (NpArray [])\<rparr>"

section \<open>Random quantum circuits\<close>

text \<open>
  \<^verbatim>\<open>experiments/rqc_statevector.py\<close>. \<^verbatim>\<open>Gate\<close> and \<^verbatim>\<open>Circuit\<close> are named tuples, built
  positionally; the fields of a gate are its name, its parameters and its qubits, those
  of a circuit are gates, nrow, ncol, nlayer, two\_qubit\_gate\_name and seed.
\<close>

datatype gate = Gate string "real list" "int list"

datatype circuit = Circuit "gate list list" int int int string int

fun gate_name :: "gate \<Rightarrow> string" where
  "gate_name (Gate name parameters qubits) = name"

text \<open>
  The random generator. \<^verbatim>\<open>np.random.RandomState(seed)\<close> accepts an integer seed between
  \<open>0\<close> and \<open>2\<^sup>3\<^sup>2 - 1\<close> and raises \<^verbatim>\<open>ValueError\<close> for any other; the state it returns
  for a seed and the draws of \<^verbatim>\<open>choice\<close>, which returns the chosen element and leaves
  the generator in a new state, are parameters.
\<close>

record 'r numpy_random =
  seeded :: "int \<Rightarrow> 'r"
  choice :: "'r \<Rightarrow> string list \<Rightarrow> string \<times> 'r"

definition RandomState :: "'r numpy_random \<Rightarrow> int \<Rightarrow> error + 'r" where
  "RandomState G seed =
     (if seed < 0 \<or> 2 ^ 32 - 1 < seed then Inl ValueError else Inr (seeded G seed))"

definition one_qubit_gate_names :: "string list" where
  "one_qubit_gate_names = [''sqrtX'', ''sqrtY'', ''sqrtW'']"

definition two_qubit_gate_name :: string where
  "two_qubit_gate_name = ''ISWAP''"

definition as_qubit :: "int \<Rightarrow> int \<Rightarrow> int \<Rightarrow> int" where
  "as_qubit ncol i j = i * ncol + j"

text \<open>
  The loop that fills the four pair groups. The indices \<open>i % 2\<close> and \<open>j % 2 + 2\<close> are
  always within the four groups.
\<close>

definition pairs_body ::
  "int \<Rightarrow> int \<Rightarrow> (int \<times> int) list list \<Rightarrow> coord \<Rightarrow> (int \<times> int) list list" where
  "pairs_body nrow ncol pairs ij =
     (case ij of (i, j) \<Rightarrow>
        let pairs = (if i \<noteq> nrow - 1
                     then pairs[nat (i mod 2) :=
                            pairs ! nat (i mod 2) @ [(as_qubit ncol i j, as_qubit ncol (i + 1) j)]]
                     else pairs);
            pairs = (if j \<noteq> ncol - 1
                     then pairs[nat (j mod 2 + 2) :=
                            pairs ! nat (j mod 2 + 2) @ [(as_qubit ncol i j, as_qubit ncol i (j + 1))]]
                     else pairs)
        in pairs)"

definition pair_groups :: "int \<Rightarrow> int \<Rightarrow> error + (int \<times> int) list list" where
  "pair_groups nrow ncol =
     (case ndindex nrow ncol of
        Inl e \<Rightarrow> Inl e
      | Inr ijs \<Rightarrow> Inr (foldl (pairs_body nrow ncol) [[], [], [], []] ijs))"

text \<open>
  \<^verbatim>\<open>add_one_qubit_gates\<close>: the loop over the qubits, on the generator, the list
  \<^verbatim>\<open>previous_gate\<close> and the layer. \<^verbatim>\<open>previous_gate\<close> has one entry for each qubit, so
  the index \<open>i\<close> is within it; a name is always different from \<^verbatim>\<open>None\<close>.
\<close>

definition one_qubit_body ::
  "'r numpy_random \<Rightarrow> 'r \<times> string option list \<times> gate list \<Rightarrow> int
     \<Rightarrow> 'r \<times> string option list \<times> gate list" where
  "one_qubit_body G st i =
     (case st of (rand_state, previous_gate, layer) \<Rightarrow>
        case choice G rand_state
               (filter (\<lambda>n. Some n \<noteq> previous_gate ! nat i) one_qubit_gate_names) of
          (name, rand_state) \<Rightarrow>
            (rand_state, previous_gate[nat i := Some name], layer @ [Gate name [] [i]]))"

definition add_one_qubit_gates ::
  "'r numpy_random \<Rightarrow> int list \<Rightarrow> 'r \<times> string option list \<times> gate list
     \<Rightarrow> 'r \<times> string option list \<times> gate list" where
  "add_one_qubit_gates G qubits st = foldl (one_qubit_body G) st qubits"

definition add_two_qubit_gates :: "(int \<times> int) list \<Rightarrow> gate list \<Rightarrow> gate list" where
  "add_two_qubit_gates qubits layer =
     foldl (\<lambda>layer ij. case ij of (i, j) \<Rightarrow> layer @ [Gate two_qubit_gate_name [] [i, j]])
       layer qubits"

definition layer_body ::
  "'r numpy_random \<Rightarrow> (int \<times> int) list list \<Rightarrow> int list
     \<Rightarrow> 'r \<times> string option list \<times> gate list list \<Rightarrow> int
     \<Rightarrow> 'r \<times> string option list \<times> gate list list" where
  "layer_body G pairs qubits st i =
     (case st of (rand_state, previous_gate, gates) \<Rightarrow>
        case add_one_qubit_gates G qubits (rand_state, previous_gate, []) of
          (rand_state, previous_gate, layer) \<Rightarrow>
            (rand_state, previous_gate,
             gates @ [add_two_qubit_gates
                        (pairs ! ([0, 1, 2, 3, 2, 3, 0, 1] ! nat (i mod 8))) layer]))"

definition generate :: "'r numpy_random \<Rightarrow> int \<Rightarrow> int \<Rightarrow> int \<Rightarrow> int \<Rightarrow> error + circuit" where
  "generate G nrow ncol nlayer seed =
     (case RandomState G seed of
        Inl e \<Rightarrow> Inl e
      | Inr rand_state \<Rightarrow>
          let qubits = [0..nrow * ncol - 1] in
          case pair_groups nrow ncol of
            Inl e \<Rightarrow> Inl e
          | Inr pairs \<Rightarrow>
              (case foldl (layer_body G pairs qubits)
                      (rand_state, replicate (length qubits) None, []) [0..nlayer - 1] of
                 (rand_state, previous_gate, gates) \<Rightarrow>
                   Inr (Circuit gates nrow ncol nlayer two_qubit_gate_name seed)))"

text \<open>
  A generator that draws by counting: the state is a counter, and \<^verbatim>\<open>choice\<close> returns
  the element at the counter's position, modulo the length of the list.
\<close>

definition counting_random :: "nat numpy_random" where
  "counting_random =
     \<lparr>seeded = (\<lambda>seed. nat seed),
      choice = (\<lambda>r xs. (xs ! (r mod length xs), Suc r))\<rparr>"

section \<open>Properties of the operator builder\<close>

subsection \<open>Index enumeration\<close>

lemma upto_nat: "0 \<le> n \<Longrightarrow> [0..n - 1] = map int [0..<nat n]"
proof (induction "nat n" arbitrary: n)
  case 0
  then show ?case by simp
next
  case (Suc k)
  then have n: "n = int k + 1" by linarith
  have "[0..n - 1] = [0..int k - 1] @ [int k]"
    using n upto_rec2[of 0 "int k"] by simp
  also have "[0..int k - 1] = map int [0..<k]"
    using Suc(1)[of "int k"] by simp
  finally show ?case using n by (simp add: nat_add_distrib)
qed

lemma ndindex_rows:
  "0 \<le> m \<Longrightarrow> 0 \<le> n \<Longrightarrow> ndindex m n = Inr (concat (map (row (nat n)) [0..<nat m]))"
  by (simp add: ndindex_def upto_nat comp_def row_def[abs_def])

lemma ndindex_negative: "m < 0 \<or> n < 0 \<Longrightarrow> ndindex m n = Inl ValueError"
  by (simp add: ndindex_def)

lemma update_fresh: "k \<notin> fst ` set al \<Longrightarrow> AList.update k v al = al @ [(k, v)]"
  by (induction al) auto

subsection \<open>The horizontal loop\<close>

lemma horizontal_body_simp:
  "horizontal_body K one h2 (T, H) (i, j) =
     (insert (i, j + 1) (insert (i, j) T),
      AList.update ((i, j), (i, j + 1))
        (if (i, j) \<in> T then fst h2 else contract_z K one (fst h2),
         if (i, j + 1) \<in> T then snd h2 else contract_z K one (snd h2)) H)"
  by (auto simp: horizontal_body_def Let_def insert_absorb)

lemma body_row:
  assumes "\<forall>j. (int i, j) \<notin> T" and "\<forall>j b. ((int i, j), b) \<notin> fst ` set H"
  shows "foldl (horizontal_body K one h2) (T, H) (row n i)
         = (T \<union> row_sites i n, H @ map (h_entry K one h2) (row n i))"
  unfolding row_def
proof (induction n)
  case 0
  then show ?case by (simp add: row_sites_def)
next
  case (Suc n)
  let ?H = "H @ map (h_entry K one h2) (map (\<lambda>j. (int i, int j)) [0..<n])"
  have fresh: "((int i, int n), (int i, int n + 1)) \<notin> fst ` set ?H"
    using assms(2) by (auto simp: h_entry_def)
  have step: "foldl (horizontal_body K one h2) (T, H) (map (\<lambda>j. (int i, int j)) [0..<Suc n])
      = horizontal_body K one h2 (T \<union> row_sites i n, ?H) (int i, int n)"
    using Suc.IH by simp
  have b: "(int i, int n + 1) \<notin> T \<union> row_sites i n"
    using assms(1) by (auto simp: row_sites_def)
  have a: "(int i, int n) \<in> T \<union> row_sites i n \<longleftrightarrow> n \<noteq> 0"
    using assms(1) by (auto simp: row_sites_def)
  have r: "insert (int i, int n + 1) (insert (int i, int n) (T \<union> row_sites i n))
             = T \<union> row_sites i (Suc n)"
    by (auto simp: row_sites_def atMost_Suc add.commute)
  have e: "h_entry K one h2 (int i, int n) = (((int i, int n), (int i, int n + 1)),
        (if n \<noteq> 0 then fst h2 else contract_z K one (fst h2), contract_z K one (snd h2)))"
    by (simp add: h_entry_def)
  show ?case
    unfolding step horizontal_body_simp r update_fresh[OF fresh]
    using a b e by simp
qed

lemma row_sites_fst: "(a, b) \<in> row_sites i n \<Longrightarrow> a = int i"
  by (auto simp: row_sites_def split: if_splits)

lemma body_rows:
  "foldl (horizontal_body K one h2) ({}, []) (concat (map (row n) [0..<m]))
   = (\<Union>i<m. row_sites i n, map (h_entry K one h2) (concat (map (row n) [0..<m])))"
proof (induction m)
  case 0
  then show ?case by simp
next
  case (Suc m)
  have T: "\<forall>j. (int m, j) \<notin> (\<Union>i<m. row_sites i n)"
    by (auto dest: row_sites_fst)
  have H: "\<forall>j b. ((int m, j), b)
             \<notin> fst ` set (map (h_entry K one h2) (concat (map (row n) [0..<m])))"
    by (auto simp: h_entry_def row_def)
  have "foldl (horizontal_body K one h2) ({}, []) (concat (map (row n) [0..<Suc m]))
      = foldl (horizontal_body K one h2)
          (\<Union>i<m. row_sites i n, map (h_entry K one h2) (concat (map (row n) [0..<m])))
          (row n m)"
    using Suc.IH by simp
  also have "\<dots> = ((\<Union>i<m. row_sites i n) \<union> row_sites m n,
       map (h_entry K one h2) (concat (map (row n) [0..<m])) @ map (h_entry K one h2) (row n m))"
    by (rule body_row[OF T H])
  finally show ?case by (simp add: lessThan_Suc Un_commute)
qed

lemma all_sites:
  assumes C: "2 \<le> C" and R: "0 \<le> R"
  shows "(\<Union>i<nat R. row_sites i (nat (C - 1))) = {(i, j). 0 \<le> i \<and> i < R \<and> 0 \<le> j \<and> j < C}"
proof -
  have n: "nat (C - 1) \<noteq> 0" using C by simp
  show ?thesis
  proof (rule set_eqI, clarify)
    fix a b
    show "((a, b) \<in> (\<Union>i<nat R. row_sites i (nat (C - 1))))
            = ((a, b) \<in> {(i, j). 0 \<le> i \<and> i < R \<and> 0 \<le> j \<and> j < C})"
    proof
      assume "(a, b) \<in> (\<Union>i<nat R. row_sites i (nat (C - 1)))"
      then obtain i j where "i < nat R" "j \<le> nat (C - 1)" "a = int i" "b = int j"
        using n by (auto simp: row_sites_def)
      then show "(a, b) \<in> {(i, j). 0 \<le> i \<and> i < R \<and> 0 \<le> j \<and> j < C}"
        using C by auto
    next
      assume "(a, b) \<in> {(i, j). 0 \<le> i \<and> i < R \<and> 0 \<le> j \<and> j < C}"
      then have "nat a < nat R" "nat b \<le> nat (C - 1)" "a = int (nat a)" "b = int (nat b)"
        by auto
      then show "(a, b) \<in> (\<Union>i<nat R. row_sites i (nat (C - 1)))"
        using n unfolding row_sites_def by (auto simp del: int_nat_eq)
    qed
  qed
qed

lemma horizontal_pass_eq:
  assumes "0 \<le> R" "1 \<le> C"
  shows "horizontal_pass K one h2 R C =
     Inr (if C = 1 then {} else {(i, j). 0 \<le> i \<and> i < R \<and> 0 \<le> j \<and> j < C},
          map (h_entry K one h2) (concat (map (row (nat (C - 1))) [0..<nat R])))"
proof (cases "C = 1")
  case True
  have "ndindex R (C - 1) = Inr (concat (map (row (nat (C - 1))) [0..<nat R]))"
    using assms by (simp add: ndindex_rows)
  then show ?thesis using True
    by (simp add: horizontal_pass_def body_rows row_sites_def)
next
  case False
  then have "2 \<le> C" using assms by simp
  have "ndindex R (C - 1) = Inr (concat (map (row (nat (C - 1))) [0..<nat R]))"
    using assms by (simp add: ndindex_rows)
  with all_sites[OF \<open>2 \<le> C\<close> assms(1)] False show ?thesis
    by (simp add: horizontal_pass_def body_rows)
qed

subsection \<open>The vertical loop and the stored dictionaries\<close>

lemma distinct_rows: "distinct (concat (map (row n) [0..<m]))"
  by (induction m) (auto simp: row_def distinct_map inj_on_def)

lemma set_rows: "set (concat (map (row n) [0..<m])) = {(int i, int j) | i j. i < m \<and> j < n}"
  by (auto simp: row_def)

lemma count_one: "distinct xs \<Longrightarrow> length (filter (\<lambda>x. x = k \<and> P) xs) = (if k \<in> set xs \<and> P then 1 else 0)"
  by (induction xs) auto

lemma vertical_body_simp: "vertical_body v2 H (i, j) = AList.update ((i, j), (i + 1, j)) (fst v2, snd v2) H"
  by (simp add: vertical_body_def)

lemma vertical_fold:
  "distinct (xs @ ys) \<Longrightarrow> foldl (vertical_body v2) (map (v_entry v2) xs) ys = map (v_entry v2) (xs @ ys)"
proof (induction ys arbitrary: xs)
  case Nil
  then show ?case by simp
next
  case (Cons y ys)
  obtain i j where y: "y = (i, j)" by (cases y)
  have fresh: "((i, j), (i + 1, j)) \<notin> fst ` set (map (v_entry v2) xs)"
    using Cons.prems y by (auto simp: v_entry_def)
  have "vertical_body v2 (map (v_entry v2) xs) y = map (v_entry v2) (xs @ [y])"
    unfolding y vertical_body_simp update_fresh[OF fresh] by (simp add: v_entry_def)
  then show ?case using Cons.IH[of "xs @ [y]"] Cons.prems by simp
qed

lemma vertical_pass_eq:
  assumes "1 \<le> R" "0 \<le> C"
  shows "vertical_pass v2 R C = Inr (map (v_entry v2) (concat (map (row (nat C)) [0..<nat (R - 1)])))"
  using assms vertical_fold[of "[]" "concat (map (row (nat C)) [0..<nat (R - 1)])" v2]
  by (simp add: vertical_pass_def ndindex_rows distinct_rows)

lemma set_rows_int:
  assumes "0 \<le> m" "0 \<le> n"
  shows "set (concat (map (row (nat n)) [0..<nat m])) = {(i, j). 0 \<le> i \<and> i < m \<and> 0 \<le> j \<and> j < n}"
proof (rule set_eqI, clarify)
  fix a b
  show "((a, b) \<in> set (concat (map (row (nat n)) [0..<nat m])))
          = ((a, b) \<in> {(i, j). 0 \<le> i \<and> i < m \<and> 0 \<le> j \<and> j < n})"
  proof
    assume "(a, b) \<in> set (concat (map (row (nat n)) [0..<nat m]))"
    then obtain i j where "i < nat m" "j < nat n" "a = int i" "b = int j"
      by (auto simp: row_def)
    then show "(a, b) \<in> {(i, j). 0 \<le> i \<and> i < m \<and> 0 \<le> j \<and> j < n}" by auto
  next
    assume "(a, b) \<in> {(i, j). 0 \<le> i \<and> i < m \<and> 0 \<le> j \<and> j < n}"
    then have "nat a < nat m" "nat b < nat n" "a = int (nat a)" "b = int (nat b)" by auto
    then have "(int (nat a), int (nat b)) \<in> set (concat (map (row (nat n)) [0..<nat m]))"
      unfolding set_rows by blast
    then show "(a, b) \<in> set (concat (map (row (nat n)) [0..<nat m]))"
      using \<open>a = int (nat a)\<close> \<open>b = int (nat b)\<close> by simp
  qed
qed

lemma map_of_map_inj:
  "inj k \<Longrightarrow> x \<in> set L \<Longrightarrow> map_of (map (\<lambda>x. (k x, v x)) L) (k x) = Some (v x)"
  by (induction L) (auto simp: inj_def)

lemma sym_raw_not_folded:
  "\<not> field_folded one (fst (horizontal_pair_site_operator sym_backend t))"
  by (simp add: field_folded_def horizontal_pair_site_operator_def sym_backend_def Let_def)

lemma sym_folded: "field_folded one (contract_z sym_koala one t)"
  by (simp add: field_folded_def sym_koala_def)

lemma field_count_entries:
  assumes nf: "\<not> field_folded one (fst h2)" and d: "distinct L"
  shows "field_count one (map (h_entry sym_koala one h2) L) c =
           (if c \<in> set L \<and> snd c = 0 then 1 else 0)
           + (if (fst c, snd c - 1) \<in> set L then 1 else 0)"
proof -
  have 1: "(\<lambda>entry. fst (fst entry) = c \<and> field_folded one (fst (snd entry))) \<circ> h_entry sym_koala one h2
         = (\<lambda>x. x = c \<and> snd c = 0)"
    using nf by (auto simp: fun_eq_iff h_entry_def sym_folded)
  have 2: "(\<lambda>entry. snd (fst entry) = c \<and> field_folded one (snd (snd entry))) \<circ> h_entry sym_koala one h2
         = (\<lambda>x. x = (fst c, snd c - 1) \<and> True)"
    by (auto simp: fun_eq_iff h_entry_def sym_folded)
  show ?thesis
    unfolding field_count_def filter_map length_map 1 2 count_one[OF d] by simp
qed

text \<open>
  Claim C3. For a lattice with at least two columns, when the horizontal loop of the
  operator builder has run, the set of visited sites is the whole grid, and every
  coordinate of the grid has exactly one stored factor acting on it into which the
  one-site operator has been contracted. With a single column the loop runs over no
  edge: it visits no site and stores nothing, so no site receives the field term.
\<close>

theorem field_term_coverage:
  fixes R C :: int and J h tau :: real
  defines "one \<equiv> one_site_term sym_backend h tau"
  defines "h2 \<equiv> horizontal_pair_site_operator sym_backend (exp_pauli_zz sym_backend J tau)"
  assumes R: "0 \<le> R"
  shows "(2 \<le> C \<longrightarrow>
            (\<exists>hoperators.
               horizontal_pass sym_koala one h2 R C
                 = Inr ({(i, j). 0 \<le> i \<and> i < R \<and> 0 \<le> j \<and> j < C}, hoperators)
               \<and> (\<forall>i j. 0 \<le> i \<and> i < R \<and> 0 \<le> j \<and> j < C
                      \<longrightarrow> field_count one hoperators (i, j) = 1)))
         \<and> (C = 1 \<longrightarrow> horizontal_pass sym_koala one h2 R C = Inr ({}, []))"
proof (intro conjI impI)
  assume C: "2 \<le> C"
  let ?L = "concat (map (row (nat (C - 1))) [0..<nat R])"
  have pass: "horizontal_pass sym_koala one h2 R C
      = Inr ({(i, j). 0 \<le> i \<and> i < R \<and> 0 \<le> j \<and> j < C}, map (h_entry sym_koala one h2) ?L)"
    using horizontal_pass_eq[of R C sym_koala one h2] R C by simp
  have nf: "\<not> field_folded one (fst h2)"
    unfolding h2_def by (rule sym_raw_not_folded)
  have S: "set ?L = {(i, j). 0 \<le> i \<and> i < R \<and> 0 \<le> j \<and> j < C - 1}"
    using set_rows_int[of R "C - 1"] R C by simp
  have "\<forall>i j. 0 \<le> i \<and> i < R \<and> 0 \<le> j \<and> j < C
          \<longrightarrow> field_count one (map (h_entry sym_koala one h2) ?L) (i, j) = 1"
    using C unfolding field_count_entries[OF nf distinct_rows] S by auto
  with pass show "\<exists>hoperators.
       horizontal_pass sym_koala one h2 R C
         = Inr ({(i, j). 0 \<le> i \<and> i < R \<and> 0 \<le> j \<and> j < C}, hoperators)
       \<and> (\<forall>i j. 0 \<le> i \<and> i < R \<and> 0 \<le> j \<and> j < C
              \<longrightarrow> field_count one hoperators (i, j) = 1)"
    by blast
next
  assume "C = 1"
  then show "horizontal_pass sym_koala one h2 R C = Inr ({}, [])"
    using horizontal_pass_eq[of R C sym_koala one h2] R by (simp add: row_def)
qed

theorem field_term_coverage_witness:
  "(0::int) \<le> 2 \<and> (2::int) \<le> 3
   \<and> (case horizontal_pass sym_koala (one_site_term sym_backend (1/5) (1/100))
              (horizontal_pair_site_operator sym_backend (exp_pauli_zz sym_backend 1 (1/100))) 2 3 of
         Inl e \<Rightarrow> False
       | Inr (touched_sites, hoperators) \<Rightarrow>
           touched_sites = {(i, j). 0 \<le> i \<and> i < 2 \<and> 0 \<le> j \<and> j < 3}
           \<and> field_count (one_site_term sym_backend (1/5) (1/100)) hoperators (1, 2) = 1
           \<and> field_count (one_site_term sym_backend (1/5) (1/100)) hoperators (0, 0) = 1)
   \<and> horizontal_pass sym_koala (one_site_term sym_backend (1/5) (1/100))
        (horizontal_pair_site_operator sym_backend (exp_pauli_zz sym_backend 1 (1/100))) 2 1
      = Inr ({}, [])"
proof -
  have R: "(0::int) \<le> 2" by simp
  from field_term_coverage[OF R, of 3 "1/5" "1/100" 1] field_term_coverage[OF R, of 1 "1/5" "1/100" 1]
  show ?thesis by auto
qed


lemma build_eq:
  assumes "1 \<le> R" "1 \<le> C"
  shows "build_tfi_trottered_step_operators B K J h R C tau backend =
     Inr (map (to_backend B backend)
            (map (h_entry K (one_site_term B h tau)
                    (horizontal_pair_site_operator B (exp_pauli_zz B J tau)))
               (concat (map (row (nat (C - 1))) [0..<nat R]))),
          map (to_backend B backend)
            (map (v_entry (vertical_pair_site_operator B (exp_pauli_zz B J tau)))
               (concat (map (row (nat C)) [0..<nat (R - 1)]))))"
  using assms
  by (simp add: build_tfi_trottered_step_operators_def Let_def horizontal_pass_eq vertical_pass_eq)

lemma to_backend_h_entry:
  "to_backend B backend (h_entry K one h2 x) =
     (((fst x, snd x), (fst x, snd x + 1)),
      (astensor B backend (unwrap B (if snd x = 0 then contract_z K one (fst h2) else fst h2)),
       astensor B backend (unwrap B (contract_z K one (snd h2)))))"
  by (cases x) (simp add: to_backend_def h_entry_def)

lemma to_backend_v_entry:
  "to_backend B backend (v_entry v2 x) =
     (((fst x, snd x), (fst x + 1, snd x)),
      (astensor B backend (unwrap B (fst v2)), astensor B backend (unwrap B (snd v2))))"
  by (cases x) (simp add: to_backend_def v_entry_def case_prod_beta)

text \<open>
  Claim C9. For \<open>R \<ge> 1\<close> rows and \<open>C \<ge> 2\<close> columns the builder returns two dictionaries.
  In the horizontal one, the entry of the leftmost edge \<open>((i, 0), (i, 1))\<close> of each row
  has the one-site operator contracted into both factors, the entry of any other edge
  \<open>((i, j), (i, j + 1))\<close>, \<open>j \<ge> 1\<close>, has the plain first factor and the one-site operator
  contracted into the second one only. Every entry of the vertical dictionary is the
  plain vertical factor pair. (\<open>stored\<close> is the transfer to the chosen backend that the
  builder applies to every factor it returns.)
\<close>

theorem field_folded_into_leftmost_edge_twice:
  fixes B :: "'t backend" and K :: "('t, 'q) koala" and J h tau :: real and R C :: int
    and backend :: string
  defines "one \<equiv> one_site_term B h tau"
  defines "h2 \<equiv> horizontal_pair_site_operator B (exp_pauli_zz B J tau)"
  defines "v2 \<equiv> vertical_pair_site_operator B (exp_pauli_zz B J tau)"
  defines "stored \<equiv> \<lambda>t. astensor B backend (unwrap B t)"
  assumes R: "1 \<le> R" and C: "2 \<le> C"
  shows "\<exists>hoperators voperators.
           build_tfi_trottered_step_operators B K J h R C tau backend
             = Inr (hoperators, voperators)
           \<and> (\<forall>i j. 0 \<le> i \<and> i < R \<and> 0 \<le> j \<and> j < C - 1 \<longrightarrow>
                 map_of hoperators ((i, j), (i, j + 1))
                   = Some (stored (if j = 0 then contract_z K one (fst h2) else fst h2),
                           stored (contract_z K one (snd h2))))
           \<and> (\<forall>i j. 0 \<le> i \<and> i < R - 1 \<and> 0 \<le> j \<and> j < C \<longrightarrow>
                 map_of voperators ((i, j), (i + 1, j))
                   = Some (stored (fst v2), stored (snd v2)))"
proof -
  let ?LH = "concat (map (row (nat (C - 1))) [0..<nat R])"
  let ?LV = "concat (map (row (nat C)) [0..<nat (R - 1)])"
  let ?hops = "map (to_backend B backend) (map (h_entry K one h2) ?LH)"
  let ?vops = "map (to_backend B backend) (map (v_entry v2) ?LV)"
  have b: "build_tfi_trottered_step_operators B K J h R C tau backend = Inr (?hops, ?vops)"
    unfolding one_def h2_def v2_def using R C by (simp add: build_eq)
  have SH: "set ?LH = {(i, j). 0 \<le> i \<and> i < R \<and> 0 \<le> j \<and> j < C - 1}"
    using set_rows_int[of R "C - 1"] R C by simp
  have SV: "set ?LV = {(i, j). 0 \<le> i \<and> i < R - 1 \<and> 0 \<le> j \<and> j < C}"
    using set_rows_int[of "R - 1" C] R C by simp
  have ih: "inj (\<lambda>x::coord. ((fst x, snd x), (fst x, snd x + 1)))"
    by (auto simp: inj_def prod_eq_iff)
  have iv: "inj (\<lambda>x::coord. ((fst x, snd x), (fst x + 1, snd x)))"
    by (auto simp: inj_def prod_eq_iff)
  have H: "map_of ?hops ((i, j), (i, j + 1))
             = Some (stored (if j = 0 then contract_z K one (fst h2) else fst h2),
                     stored (contract_z K one (snd h2)))"
    if "0 \<le> i \<and> i < R \<and> 0 \<le> j \<and> j < C - 1" for i j
  proof -
    have "(i, j) \<in> set ?LH" using that SH by simp
    from map_of_map_inj[OF ih this,
        of "\<lambda>x. (stored (if snd x = 0 then contract_z K one (fst h2) else fst h2),
                   stored (contract_z K one (snd h2)))"]
    show ?thesis
      by (simp add: to_backend_h_entry comp_def stored_def)
  qed
  have V: "map_of ?vops ((i, j), (i + 1, j)) = Some (stored (fst v2), stored (snd v2))"
    if "0 \<le> i \<and> i < R - 1 \<and> 0 \<le> j \<and> j < C" for i j
  proof -
    have "(i, j) \<in> set ?LV" using that SV by simp
    from map_of_map_inj[OF iv this, of "\<lambda>x. (stored (fst v2), stored (snd v2))"]
    show ?thesis
      by (simp add: to_backend_v_entry comp_def stored_def)
  qed
  from b H V show ?thesis by blast
qed

theorem field_folded_into_leftmost_edge_twice_witness:
  "(1::int) \<le> 1 \<and> (2::int) \<le> 3
   \<and> (case build_tfi_trottered_step_operators sym_backend sym_koala 1 (1/5) 1 3 (1/100) ''numpy'' of
         Inl e \<Rightarrow> False
       | Inr (hoperators, voperators) \<Rightarrow>
           map_of hoperators ((0, 0), (0, 1))
             = Some (Astensor ''numpy'' (Unwrap (ContractZ (one_site_term sym_backend (1/5) (1/100))
                       (fst (horizontal_pair_site_operator sym_backend (exp_pauli_zz sym_backend 1 (1/100)))))),
                     Astensor ''numpy'' (Unwrap (ContractZ (one_site_term sym_backend (1/5) (1/100))
                       (snd (horizontal_pair_site_operator sym_backend (exp_pauli_zz sym_backend 1 (1/100)))))))
           \<and> map_of hoperators ((0, 1), (0, 2))
             = Some (Astensor ''numpy'' (Unwrap
                       (fst (horizontal_pair_site_operator sym_backend (exp_pauli_zz sym_backend 1 (1/100))))),
                     Astensor ''numpy'' (Unwrap (ContractZ (one_site_term sym_backend (1/5) (1/100))
                       (snd (horizontal_pair_site_operator sym_backend (exp_pauli_zz sym_backend 1 (1/100))))))))"
proof -
  have R: "(1::int) \<le> 1" and C: "(2::int) \<le> 3" by simp_all
  from field_folded_into_leftmost_edge_twice[OF R C, of sym_backend sym_koala 1 "1/5" "1/100" "''numpy''"]
  obtain hops vops where
    b: "build_tfi_trottered_step_operators sym_backend sym_koala 1 (1/5) 1 3 (1/100) ''numpy'' = Inr (hops, vops)"
    and h: "\<forall>i j. 0 \<le> i \<and> i < 1 \<and> 0 \<le> j \<and> j < 3 - 1 \<longrightarrow>
         map_of hops ((i, j), (i, j + 1))
           = Some (astensor sym_backend ''numpy'' (unwrap sym_backend
                     (if j = 0 then contract_z sym_koala (one_site_term sym_backend (1/5) (1/100))
                          (fst (horizontal_pair_site_operator sym_backend (exp_pauli_zz sym_backend 1 (1/100))))
                      else fst (horizontal_pair_site_operator sym_backend (exp_pauli_zz sym_backend 1 (1/100))))),
                   astensor sym_backend ''numpy'' (unwrap sym_backend
                     (contract_z sym_koala (one_site_term sym_backend (1/5) (1/100))
                        (snd (horizontal_pair_site_operator sym_backend (exp_pauli_zz sym_backend 1 (1/100)))))))"
    by blast
  from h[rule_format, of 0 0] h[rule_format, of 0 1] b show ?thesis
    by (simp add: sym_backend_def sym_koala_def)
qed


lemma foldl_items:
  assumes d: "distinct (map fst al)"
  shows "set xs \<subseteq> set al \<Longrightarrow>
         foldl f q xs = foldl (\<lambda>q e. f q (e, the (map_of al e))) q (map fst xs)"
proof (induction xs arbitrary: q)
  case Nil
  then show ?case by simp
next
  case (Cons x xs)
  obtain k v where x: "x = (k, v)" by (cases x)
  have "map_of al k = Some v" using Cons.prems d x by simp
  then show ?case using Cons x by simp
qed

lemma links_rows:
  assumes "1 \<le> R" "1 \<le> C"
  shows "horizontal_links R C = Inr (map (\<lambda>x. ((fst x, snd x), (fst x, snd x + 1)))
            (concat (map (row (nat (C - 1))) [0..<nat R])))"
    and "vertical_links R C = Inr (map (\<lambda>x. ((fst x, snd x), (fst x + 1, snd x)))
            (concat (map (row (nat C)) [0..<nat (R - 1)])))"
  using assms by (simp_all add: horizontal_links_def vertical_links_def ndindex_rows case_prod_beta)

lemma links_explicit:
  "horizontal_links R C = (if R < 0 \<or> C - 1 < 0 then Inl ValueError else
       Inr [((i, j), (i, j + 1)). i \<leftarrow> [0..R - 1], j \<leftarrow> [0..C - 2]])"
  "vertical_links R C = (if R - 1 < 0 \<or> C < 0 then Inl ValueError else
       Inr [((i, j), (i + 1, j)). i \<leftarrow> [0..R - 2], j \<leftarrow> [0..C - 1]])"
  by (simp_all add: horizontal_links_def vertical_links_def ndindex_def map_concat comp_def)

text \<open>
  Claim C6, as amended. For a lattice of \<open>R \<ge> 1\<close> rows and \<open>C \<ge> 1\<close> columns the edge enumeration is
  the list of the horizontal edges \<open>((i, j), (i, j + 1))\<close>, \<open>i\<close> in \<open>[0, R)\<close> and \<open>j\<close> in
  \<open>[0, C - 1)\<close>, and the list of the vertical edges \<open>((i, j), (i + 1, j))\<close>, \<open>i\<close> in
  \<open>[0, R - 1)\<close> and \<open>j\<close> in \<open>[0, C)\<close>, both row-major. The keys of the two dictionaries
  of the builder are these lists in this order, and one Trotter step is the update of
  every horizontal edge in this order with its entry of the horizontal dictionary,
  followed by the update of every vertical edge in this order with its entry of the
  vertical dictionary.
\<close>

theorem edge_order_and_sweep:
  fixes B :: "'t backend" and K :: "('t, 'q) koala"
  assumes R: "1 \<le> R" and C: "1 \<le> C"
  shows "horizontal_links R C = Inr [((i, j), (i, j + 1)). i \<leftarrow> [0..R - 1], j \<leftarrow> [0..C - 2]]
       \<and> vertical_links R C = Inr [((i, j), (i + 1, j)). i \<leftarrow> [0..R - 2], j \<leftarrow> [0..C - 1]]
       \<and> (\<exists>hoperators voperators hlinks vlinks.
            build_tfi_trottered_step_operators B K J h R C tau backend
              = Inr (hoperators, voperators)
            \<and> horizontal_links R C = Inr hlinks \<and> vertical_links R C = Inr vlinks
            \<and> map fst hoperators = hlinks \<and> map fst voperators = vlinks
            \<and> apply_trottered_step_operators K qstate hoperators voperators maxrank
                = foldl (\<lambda>q e. update_vertical K maxrank q (e, the (map_of voperators e)))
                    (foldl (\<lambda>q e. update_horizontal K maxrank q (e, the (map_of hoperators e)))
                       qstate hlinks)
                    vlinks)"
proof -
  let ?LH = "concat (map (row (nat (C - 1))) [0..<nat R])"
  let ?LV = "concat (map (row (nat C)) [0..<nat (R - 1)])"
  let ?one = "one_site_term B h tau"
  let ?h2 = "horizontal_pair_site_operator B (exp_pauli_zz B J tau)"
  let ?v2 = "vertical_pair_site_operator B (exp_pauli_zz B J tau)"
  let ?hops = "map (to_backend B backend) (map (h_entry K ?one ?h2) ?LH)"
  let ?vops = "map (to_backend B backend) (map (v_entry ?v2) ?LV)"
  let ?hl = "map (\<lambda>x::coord. ((fst x, snd x), (fst x, snd x + 1))) ?LH"
  let ?vl = "map (\<lambda>x::coord. ((fst x, snd x), (fst x + 1, snd x))) ?LV"
  have b: "build_tfi_trottered_step_operators B K J h R C tau backend = Inr (?hops, ?vops)"
    using R C by (simp add: build_eq)
  have kh: "map fst ?hops = ?hl" by (simp add: to_backend_h_entry comp_def)
  have kv: "map fst ?vops = ?vl" by (simp add: to_backend_v_entry comp_def)
  have dh: "distinct (map fst ?hops)"
    unfolding kh by (simp add: distinct_map distinct_rows inj_on_def prod_eq_iff)
  have dv: "distinct (map fst ?vops)"
    unfolding kv by (simp add: distinct_map distinct_rows inj_on_def prod_eq_iff)
  have ap: "apply_trottered_step_operators K qstate ?hops ?vops maxrank
      = foldl (\<lambda>q e. update_vertical K maxrank q (e, the (map_of ?vops e)))
          (foldl (\<lambda>q e. update_horizontal K maxrank q (e, the (map_of ?hops e))) qstate ?hl) ?vl"
    unfolding apply_trottered_step_operators_def
    using foldl_items[OF dh subset_refl, of "update_horizontal K maxrank" qstate]
      foldl_items[OF dv subset_refl, of "update_vertical K maxrank"]
    unfolding kh kv by simp
  have e: "horizontal_links R C = Inr [((i, j), (i, j + 1)). i \<leftarrow> [0..R - 1], j \<leftarrow> [0..C - 2]]"
      "vertical_links R C = Inr [((i, j), (i + 1, j)). i \<leftarrow> [0..R - 2], j \<leftarrow> [0..C - 1]]"
    using R C by (simp_all add: links_explicit)
  from b kh kv ap links_rows[OF R C] e show ?thesis by blast
qed

theorem edge_order_and_sweep_witness:
  "(1::int) \<le> 2 \<and> (1::int) \<le> 2
   \<and> horizontal_links 2 2 = Inr [((0, 0), (0, 1)), ((1, 0), (1, 1))]
   \<and> vertical_links 2 2 = Inr [((0, 0), (1, 0)), ((0, 1), (1, 1))]
   \<and> (case build_tfi_trottered_step_operators sym_backend sym_koala 1 (1/5) 2 2 (1/100) ''numpy'' of
         Inl e \<Rightarrow> False
       | Inr (hoperators, voperators) \<Rightarrow>
           map fst hoperators = [((0, 0), (0, 1)), ((1, 0), (1, 1))]
           \<and> map fst voperators = [((0, 0), (1, 0)), ((0, 1), (1, 1))])"
proof -
  have R: "(1::int) \<le> 2" by simp
  have u: "[0..(0::int)] = [0]" "[0..(1::int)] = [0, 1]" by (simp_all add: upto.simps)
  from edge_order_and_sweep[OF R R, where B = sym_backend and K = sym_koala and J = 1
      and h = "1/5" and tau = "1/100" and backend = "''numpy''"
      and qstate = "RandomSite 2 2 1 ''numpy''" and maxrank = 1]
  show ?thesis by (auto simp: u)
qed

text \<open>
  Claim C6 as stated, for every \<open>(R, C)\<close>, fails on a lattice without columns: the
  claim's ranges are empty there, but the enumeration of the horizontal edges asks
  \<open>ndindex\<close> for \<open>C - 1 = - 1\<close> columns and raises.
\<close>

theorem no_columns_counterexample:
  "horizontal_links 1 0 = Inl ValueError"
  by (simp add: horizontal_links_def ndindex_def)


section \<open>Properties of the simulation loop and of the entry point\<close>

lemma run_steps_eq:
  "normfreq \<noteq> 0 \<Longrightarrow>
   run_steps K operators normfreq maxrank qstate is =
     Inr (foldl (\<lambda>q i. (if normfreq dvd i + 1 then site_normalize K else id)
                   (apply_trottered_step_operators K q (fst operators) (snd operators) maxrank))
            qstate is)"
  by (induction "is" arbitrary: qstate) (simp_all add: Let_def dvd_eq_mod_eq_0)

lemma run_steps_Nil_upto: "steps \<le> 0 \<Longrightarrow> [0..steps - 1] = []"
  by simp

lemma upto_shift: "map (\<lambda>i. i + 1) [0..n - 1] = [1..n]"
proof (cases "0 \<le> n")
  case True
  then show ?thesis
  proof (induction "nat n" arbitrary: n)
    case 0
    then show ?case by simp
  next
    case (Suc k)
    then have n: "n = int k + 1" by linarith
    have a: "[0..n - 1] = [0..int k - 1] @ [int k]"
      using n upto_rec2[of 0 "int k"] by simp
    have b: "[1..n] = [1..int k] @ [n]"
      using n upto_rec2[of 1 n] by simp
    show ?case unfolding a b using Suc(1)[of "int k"] n by simp
  qed
next
  case False
  then show ?thesis by simp
qed

lemma foldl_shift: "foldl (\<lambda>q i. f q (i + 1)) q xs = foldl f q (map (\<lambda>i. i + (1::int)) xs)"
  by (induction xs arbitrary: q) simp_all

text \<open>
  Claim C7. For \<open>steps \<ge> 1\<close> and \<open>normfreq \<ge> 1\<close> the simulation loop returns the state
  obtained from the random initial state by running the steps \<open>1, \<dots>, steps\<close> in order,
  where step \<open>i\<close> is one application of the Trotter step operators, followed by the
  normalization of the grid state exactly when \<open>normfreq\<close> divides \<open>i\<close>. This holds for
  every interpretation of the collaborators, so the normalization is invoked after
  these steps and at no other time.
\<close>

theorem normalization_after_every_normfreq_steps:
  assumes "1 \<le> steps" and "1 \<le> normfreq"
  shows "run_peps K operators nrow ncol steps normfreq backend threshold maxrank randomized_svd =
     Inr (foldl (\<lambda>q i. (if normfreq dvd i then site_normalize K else id)
                   (apply_trottered_step_operators K q (fst operators) (snd operators) maxrank))
            (peps_random K nrow ncol maxrank backend) [1..steps],
          if backend \<in> {''ctf'', ''ctfview''} then Some (get_estimated_flops K) else None)"
proof -
  have nz: "normfreq \<noteq> 0" using assms(2) by simp
  have "foldl (\<lambda>q i. (if normfreq dvd i + 1 then site_normalize K else id)
                   (apply_trottered_step_operators K q (fst operators) (snd operators) maxrank))
            (peps_random K nrow ncol maxrank backend) [0..steps - 1]
      = foldl (\<lambda>q i. (if normfreq dvd i then site_normalize K else id)
                   (apply_trottered_step_operators K q (fst operators) (snd operators) maxrank))
            (peps_random K nrow ncol maxrank backend) [1..steps]"
    using foldl_shift[of "\<lambda>q i. (if normfreq dvd i then site_normalize K else id)
                   (apply_trottered_step_operators K q (fst operators) (snd operators) maxrank)"]
    by (simp add: upto_shift)
  then show ?thesis
    by (simp add: run_peps_def Let_def run_steps_eq[OF nz])
qed

theorem normalization_after_every_normfreq_steps_witness:
  "(1::int) \<le> 4 \<and> (1::int) \<le> 2
   \<and> run_peps sym_koala ([], []) 1 1 4 2 ''numpy'' (1/100000) 1 False
       = Inr (\<lambda>c. SiteNormalize (SiteNormalize (RandomSite 1 1 1 ''numpy'' c)), None)"
proof -
  have s: "(1::int) \<le> 4" and n: "(1::int) \<le> 2" by simp_all
  have u: "[1..(4::int)] = [1, 2, 3, 4]" by (simp add: upto.simps)
  from normalization_after_every_normfreq_steps[OF s n, of sym_koala "([], [])" 1 1 "''numpy''" "1/100000" 1 False]
  show ?thesis
    by (simp add: u apply_trottered_step_operators_def sym_koala_def)
qed

text \<open>
  Claim C8. With \<open>steps = 0\<close> the simulation loop returns the very state that
  \<^verbatim>\<open>peps.random\<close> created: no site is read, stored into or normalized.
\<close>

theorem zero_steps_returns_initial_state:
  "run_peps K operators nrow ncol 0 normfreq backend threshold maxrank randomized_svd =
     Inr (peps_random K nrow ncol maxrank backend,
          if backend \<in> {''ctf'', ''ctfview''} then Some (get_estimated_flops K) else None)"
  by (simp add: run_peps_def Let_def)

theorem zero_steps_returns_initial_state_witness:
  "run_peps sym_koala ([], []) 3 3 0 10 ''numpy'' (1/100000) 1 False
     = Inr (RandomSite 3 3 1 ''numpy'', None)"
  using zero_steps_returns_initial_state[of sym_koala "([], [])" 3 3 10 "''numpy''" "1/100000" 1 False]
  by (simp add: sym_koala_def)

text \<open>
  Claim C1 says that the bond truncation is an exact or an implicit randomized SVD as
  the caller's \<^verbatim>\<open>randomized_svd\<close> setting selects. The code does not do this: the result
  of \<^verbatim>\<open>run_peps\<close> is the same for both values of the setting, and the update of a
  horizontal and of a vertical edge always hands \<^verbatim>\<open>ImplicitRandomizedSVD(maxrank)\<close> to
  the truncation, as the tensor stored at the first site of the edge shows under the
  free interpretation.
\<close>

theorem truncation_is_always_randomized:
  "run_peps K operators nrow ncol steps normfreq backend threshold maxrank False
     = run_peps K operators nrow ncol steps normfreq backend threshold maxrank True
   \<and> update_horizontal sym_koala maxrank q (((0, 0), (0, 1)), (op_a, op_b)) (0, 0)
       = ReduceY1 (ContractZ (q (0, 0)) op_a) (ContractZ (q (0, 1)) op_b)
           (ImplicitRandomizedSVD maxrank)
   \<and> update_vertical sym_koala maxrank q (((0, 0), (1, 0)), (op_a, op_b)) (0, 0)
       = ReduceX1 (ContractZ (q (0, 0)) op_a) (ContractZ (q (1, 0)) op_b)
           (ImplicitRandomizedSVD maxrank)"
  by (simp add: run_peps_def update_horizontal_def update_vertical_def sym_koala_def Let_def)

lemma build_fails:
  "nrow \<le> 0 \<or> ncol \<le> 0 \<Longrightarrow>
   build_tfi_trottered_step_operators B K J h nrow ncol tau backend = Inl ValueError"
proof -
  assume a: "nrow \<le> 0 \<or> ncol \<le> 0"
  show ?thesis
  proof (cases "nrow < 0 \<or> ncol - 1 < 0")
    case True
    then show ?thesis
      by (simp add: build_tfi_trottered_step_operators_def Let_def horizontal_pass_def
          ndindex_negative)
  next
    case False
    with a have "nrow - 1 < 0" by auto
    then have v: "vertical_pass v2 nrow ncol = Inl ValueError" for v2 :: "'a \<times> 'a"
      by (simp add: vertical_pass_def ndindex_negative)
    from False have "0 \<le> nrow" "1 \<le> ncol" by auto
    then show ?thesis
      by (simp add: build_tfi_trottered_step_operators_def Let_def horizontal_pass_eq v)
  qed
qed

lemma traced_fold_fst:
  "fst (foldl (horizontal_body_traced K one h2) (st, calls) ijs)
     = foldl (horizontal_body K one h2) st ijs"
  by (induction ijs arbitrary: st calls) (simp_all add: horizontal_body_traced_def case_prod_beta)

lemma build_traced_result:
  "snd (build_tfi_trottered_step_operators_traced B K J h nrows ncols tau backend)
     = build_tfi_trottered_step_operators B K J h nrows ncols tau backend"
proof (cases "ndindex nrows (ncols - 1)")
  case (Inl e)
  then show ?thesis
    by (simp add: build_tfi_trottered_step_operators_traced_def
        build_tfi_trottered_step_operators_def horizontal_pass_def Let_def)
next
  case (Inr ijs)
  obtain T H L where f: "foldl (horizontal_body_traced K (one_site_term B h tau)
        (horizontal_pair_site_operator B (exp_pauli_zz B J tau)))
        (({}, []), [GetBackend ''numpy'', GetBackend backend] @ one_site_term_calls
           @ exp_pauli_zz_calls @ horizontal_pair_site_operator_calls
           @ vertical_pair_site_operator_calls) ijs = ((T, H), L)"
    by (metis surj_pair)
  have g: "foldl (horizontal_body K (one_site_term B h tau)
        (horizontal_pair_site_operator B (exp_pauli_zz B J tau))) ({}, []) ijs = (T, H)"
    using traced_fold_fst[of K "one_site_term B h tau"
        "horizontal_pair_site_operator B (exp_pauli_zz B J tau)" "({}, [])" _ ijs] f
    by (metis fst_conv)
  show ?thesis
    using Inr f g
    by (cases "vertical_pass (vertical_pair_site_operator B (exp_pauli_zz B J tau)) nrows ncols")
      (simp_all add: build_tfi_trottered_step_operators_traced_def
        build_tfi_trottered_step_operators_def horizontal_pass_def Let_def)
qed

lemma build_traced_fails:
  assumes "nrows \<le> 0 \<or> ncols \<le> 0"
  shows "build_tfi_trottered_step_operators_traced B K J h nrows ncols tau backend =
     ([GetBackend ''numpy'', GetBackend backend] @ one_site_term_calls @ exp_pauli_zz_calls
        @ horizontal_pair_site_operator_calls @ vertical_pair_site_operator_calls,
      Inl ValueError)"
proof (cases "nrows < 0 \<or> ncols - 1 < 0")
  case True
  then show ?thesis
    by (simp add: build_tfi_trottered_step_operators_traced_def Let_def ndindex_negative)
next
  case False
  with assms have r: "nrows = 0" and c: "0 \<le> ncols - 1" by auto
  have h: "ndindex nrows (ncols - 1) = Inr []"
    using r c by (simp add: ndindex_def)
  have v: "vertical_pass v2 nrows ncols = Inl ValueError" for v2 :: "'a \<times> 'a"
    using r by (simp add: vertical_pass_def ndindex_negative)
  show ?thesis
    by (simp add: build_tfi_trottered_step_operators_traced_def Let_def h v)
qed

text \<open>
  Claim C5, as amended. A lattice with \<open>nrow \<le> 0\<close> or \<open>ncol \<le> 0\<close> makes the entry point
  fail: \<^verbatim>\<open>main\<close> stops with the \<^verbatim>\<open>ValueError\<close> that the index enumeration of the operator
  builder raises for a negative dimension. By then the backend has been looked up and
  has computed the one-site operator, the two-site operator and its two
  factorizations; the error and the calls made are the same whichever of the two
  fields is at fault.
\<close>

theorem invalid_lattice_fails_after_backend_calls:
  assumes "nrow \<le> 0 \<or> ncol \<le> 0"
  shows "main B K (Args nrow ncol coupling field steps tau normfreq backend threshold maxrank
                     randomized_svd) = Inl ValueError
       \<and> main_until_state B K (Args nrow ncol coupling field steps tau normfreq backend
                                  threshold maxrank randomized_svd) =
           ([GetBackend backend, GetBackend ''numpy'', GetBackend backend]
              @ one_site_term_calls @ exp_pauli_zz_calls
              @ horizontal_pair_site_operator_calls @ vertical_pair_site_operator_calls,
            Inl ValueError)"
  using assms by (simp add: build_fails build_traced_fails)

theorem invalid_lattice_fails_after_backend_calls_witness:
  "((3::int) \<le> 0 \<or> (0::int) \<le> 0)
   \<and> main sym_backend sym_koala (Args 3 0 1 (1/5) 100 (1/100) 10 ''numpy'' (1/100000) 1 False)
       = Inl ValueError
   \<and> main_until_state sym_backend sym_koala
         (Args 3 0 1 (1/5) 100 (1/100) 10 ''numpy'' (1/100000) 1 False) =
       ([GetBackend ''numpy'', GetBackend ''numpy'', GetBackend ''numpy'',
         CallScale, CallExpm, CallAstensor ''numpy'', CallReshape [1, 1, 1, 1, 2, 2],
         CallReshape [4, 4], CallScale, CallExpm, CallReshape [2, 2, 2, 2], CallAstensor ''numpy'',
         CallEinsvd ''xyuv->xys,uvs'', CallPower 2,
         CallEinsum ''xys,s->()s()()xy'', CallEinsum ''uvs,s->()()()suv'',
         CallEinsvd ''xyuv->sxy,suv'', CallPower 2,
         CallEinsum ''sxy,s->()()s()xy'', CallEinsum ''suv,s->s()()()uv''],
        Inl ValueError)"
proof -
  have a: "(3::int) \<le> 0 \<or> (0::int) \<le> 0" by simp
  from invalid_lattice_fails_after_backend_calls[OF a, of sym_backend sym_koala 1 "1/5" 100
      "1/100" 10 "''numpy''" "1/100000" 1 False]
  show ?thesis
    by (simp add: one_site_term_calls_def exp_pauli_zz_calls_def
        horizontal_pair_site_operator_calls_def vertical_pair_site_operator_calls_def)
qed

text \<open>
  Claim C5 as stated fails in each of its parts. With max-rank 0 on a lattice of one
  site nothing is rejected: the operators are built, \<^verbatim>\<open>peps.random\<close> is asked for a
  state of max-rank 0, and \<^verbatim>\<open>main\<close> returns that state after one step. With no column
  the run does fail, but only after the backend has been called for the operators and
  their factorizations, and a lattice with a negative number of rows fails in exactly
  the same way, so that the error does not tell which field is invalid.
\<close>

theorem unchecked_configuration_counterexample:
  "main_until_state sym_backend sym_koala
       (Args 1 1 1 (1/5) 1 (1/100) 10 ''numpy'' (1/100000) 0 False) =
     ([GetBackend ''numpy'', GetBackend ''numpy'', GetBackend ''numpy'',
       CallScale, CallExpm, CallAstensor ''numpy'', CallReshape [1, 1, 1, 1, 2, 2],
       CallReshape [4, 4], CallScale, CallExpm, CallReshape [2, 2, 2, 2], CallAstensor ''numpy'',
       CallEinsvd ''xyuv->xys,uvs'', CallPower 2,
       CallEinsum ''xys,s->()s()()xy'', CallEinsum ''uvs,s->()()()suv'',
       CallEinsvd ''xyuv->sxy,suv'', CallPower 2,
       CallEinsum ''sxy,s->()()s()xy'', CallEinsum ''suv,s->s()()()uv'',
       CallPepsRandom 1 1 0 ''numpy''],
      Inr (RandomSite 1 1 0 ''numpy''))
   \<and> main sym_backend sym_koala (Args 1 1 1 (1/5) 1 (1/100) 10 ''numpy'' (1/100000) 0 False)
       = Inr (RandomSite 1 1 0 ''numpy'', None)
   \<and> main_until_state sym_backend sym_koala
         (Args 3 0 1 (1/5) 1 (1/100) 10 ''numpy'' (1/100000) 1 False) =
       ([GetBackend ''numpy'', GetBackend ''numpy'', GetBackend ''numpy'',
         CallScale, CallExpm, CallAstensor ''numpy'', CallReshape [1, 1, 1, 1, 2, 2],
         CallReshape [4, 4], CallScale, CallExpm, CallReshape [2, 2, 2, 2], CallAstensor ''numpy'',
         CallEinsvd ''xyuv->xys,uvs'', CallPower 2,
         CallEinsum ''xys,s->()s()()xy'', CallEinsum ''uvs,s->()()()suv'',
         CallEinsvd ''xyuv->sxy,suv'', CallPower 2,
         CallEinsum ''sxy,s->()()s()xy'', CallEinsum ''suv,s->s()()()uv''],
        Inl ValueError)
   \<and> main_until_state sym_backend sym_koala
         (Args (- 1) 3 1 (1/5) 1 (1/100) 10 ''numpy'' (1/100000) 1 False)
       = main_until_state sym_backend sym_koala
           (Args 3 0 1 (1/5) 1 (1/100) 10 ''numpy'' (1/100000) 1 False)"
proof -
  have u: "[0..(0::int)] = [0]" by (simp add: upto.simps)
  have 1: "build_tfi_trottered_step_operators_traced sym_backend sym_koala 1 (1/5) 1 1 (1/100) ''numpy''
        = ([GetBackend ''numpy'', GetBackend ''numpy''] @ one_site_term_calls
              @ exp_pauli_zz_calls @ horizontal_pair_site_operator_calls
              @ vertical_pair_site_operator_calls, Inr ([], []))"
    by (simp add: build_tfi_trottered_step_operators_traced_def Let_def ndindex_def
        vertical_pass_def u)
  have 2: "main sym_backend sym_koala (Args 1 1 1 (1/5) 1 (1/100) 10 ''numpy'' (1/100000) 0 False)
       = Inr (RandomSite 1 1 0 ''numpy'', None)"
    by (simp add: build_eq run_peps_def Let_def apply_trottered_step_operators_def row_def
        sym_koala_def upto.simps)
  have r: "peps_random sym_koala 1 1 0 ''numpy'' = RandomSite 1 1 0 ''numpy''"
    by (simp add: sym_koala_def)
  have 3: "main_until_state sym_backend sym_koala
       (Args 1 1 1 (1/5) 1 (1/100) 10 ''numpy'' (1/100000) 0 False) =
     ([GetBackend ''numpy'', GetBackend ''numpy'', GetBackend ''numpy''] @ one_site_term_calls
              @ exp_pauli_zz_calls @ horizontal_pair_site_operator_calls
              @ vertical_pair_site_operator_calls @ [CallPepsRandom 1 1 0 ''numpy''],
      Inr (RandomSite 1 1 0 ''numpy''))"
    by (simp add: 1 r)
  have 4: "main_until_state sym_backend sym_koala
         (Args 3 0 1 (1/5) 1 (1/100) 10 ''numpy'' (1/100000) 1 False) =
       ([GetBackend ''numpy'', GetBackend ''numpy'', GetBackend ''numpy''] @ one_site_term_calls
              @ exp_pauli_zz_calls @ horizontal_pair_site_operator_calls
              @ vertical_pair_site_operator_calls, Inl ValueError)"
    by (simp add: build_traced_fails)
  have 5: "main_until_state sym_backend sym_koala
         (Args (- 1) 3 1 (1/5) 1 (1/100) 10 ''numpy'' (1/100000) 1 False) =
       ([GetBackend ''numpy'', GetBackend ''numpy'', GetBackend ''numpy''] @ one_site_term_calls
              @ exp_pauli_zz_calls @ horizontal_pair_site_operator_calls
              @ vertical_pair_site_operator_calls, Inl ValueError)"
    by (simp add: build_traced_fails)
  show ?thesis
    unfolding 2 3 4 5
    by (simp add: one_site_term_calls_def exp_pauli_zz_calls_def
        horizontal_pair_site_operator_calls_def vertical_pair_site_operator_calls_def)
qed

section \<open>Properties of the random circuit generator\<close>

lemma add_two_qubit_gates_eq:
  "add_two_qubit_gates qs layer
     = layer @ map (\<lambda>(i, j). Gate two_qubit_gate_name [] [i, j]) qs"
  unfolding add_two_qubit_gates_def
  by (induction qs arbitrary: layer) (auto simp: case_prod_beta)

lemma filtered_names_nonempty:
  "filter (\<lambda>n. Some n \<noteq> p) one_qubit_gate_names \<noteq> []"
  by (cases p) (auto simp: one_qubit_gate_names_def)

lemma one_qubit_body_step:
  assumes ch: "\<And>r xs. xs \<noteq> [] \<Longrightarrow> fst (choice G r xs) \<in> set xs"
  shows "\<exists>rs' nm. one_qubit_body G (rs, prev, layer) (int n)
            = (rs', prev[n := Some nm], layer @ [Gate nm [] [int n]])
          \<and> nm \<in> set one_qubit_gate_names \<and> Some nm \<noteq> prev ! n"
proof -
  let ?xs = "filter (\<lambda>n'. Some n' \<noteq> prev ! n) one_qubit_gate_names"
  obtain nm rs' where c: "choice G rs ?xs = (nm, rs')" by (cases "choice G rs ?xs")
  have "fst (choice G rs ?xs) \<in> set ?xs" by (rule ch[OF filtered_names_nonempty])
  then have "nm \<in> set one_qubit_gate_names \<and> Some nm \<noteq> prev ! n" using c by simp
  then show ?thesis using c by (simp add: one_qubit_body_def)
qed

lemma one_qubit_loop:
  assumes ch: "\<And>r xs. xs \<noteq> [] \<Longrightarrow> fst (choice G r xs) \<in> set xs"
  shows "distinct ns \<Longrightarrow> \<forall>n\<in>set ns. n < length prev \<Longrightarrow>
     \<exists>rs' prev'.
        foldl (one_qubit_body G) (rs, prev, layer) (map int ns)
          = (rs', prev', layer @ map (\<lambda>n. Gate (the (prev' ! n)) [] [int n]) ns)
        \<and> length prev' = length prev
        \<and> (\<forall>n\<in>set ns. \<exists>nm. prev' ! n = Some nm \<and> nm \<in> set one_qubit_gate_names
               \<and> Some nm \<noteq> prev ! n)
        \<and> (\<forall>k. k \<notin> set ns \<longrightarrow> prev' ! k = prev ! k)"
proof (induction ns arbitrary: rs prev layer)
  case Nil
  then show ?case by simp
next
  case (Cons n ns)
  from one_qubit_body_step[OF ch, of rs prev layer n]
  obtain rs1 nm where
    s: "one_qubit_body G (rs, prev, layer) (int n)
          = (rs1, prev[n := Some nm], layer @ [Gate nm [] [int n]])"
    and nm: "nm \<in> set one_qubit_gate_names" "Some nm \<noteq> prev ! n"
    by blast
  have d: "distinct ns" and nn: "n \<notin> set ns" using Cons.prems(1) by simp_all
  have l: "\<forall>m\<in>set ns. m < length (prev[n := Some nm])" using Cons.prems(2) by simp
  from Cons.IH[OF d l, of rs1 "layer @ [Gate nm [] [int n]]"]
  obtain rs' prev' where
    f: "foldl (one_qubit_body G) (rs1, prev[n := Some nm], layer @ [Gate nm [] [int n]]) (map int ns)
          = (rs', prev', (layer @ [Gate nm [] [int n]]) @ map (\<lambda>n. Gate (the (prev' ! n)) [] [int n]) ns)"
    and len: "length prev' = length (prev[n := Some nm])"
    and got: "\<forall>m\<in>set ns. \<exists>nm'. prev' ! m = Some nm' \<and> nm' \<in> set one_qubit_gate_names
               \<and> Some nm' \<noteq> prev[n := Some nm] ! m"
    and keep: "\<forall>k. k \<notin> set ns \<longrightarrow> prev' ! k = prev[n := Some nm] ! k"
    by blast
  have n_lt: "n < length prev" using Cons.prems(2) by simp
  have pn: "prev' ! n = Some nm" using keep nn n_lt by simp
  have 1: "foldl (one_qubit_body G) (rs, prev, layer) (map int (n # ns))
          = (rs', prev', layer @ map (\<lambda>n. Gate (the (prev' ! n)) [] [int n]) (n # ns))"
    using s f pn by simp
  have 2: "\<forall>m\<in>set (n # ns). \<exists>nm'. prev' ! m = Some nm' \<and> nm' \<in> set one_qubit_gate_names
               \<and> Some nm' \<noteq> prev ! m"
  proof
    fix m assume m: "m \<in> set (n # ns)"
    show "\<exists>nm'. prev' ! m = Some nm' \<and> nm' \<in> set one_qubit_gate_names \<and> Some nm' \<noteq> prev ! m"
    proof (cases "m = n")
      case True
      then show ?thesis using pn nm by simp
    next
      case False
      then have "m \<in> set ns" using m by simp
      with got False show ?thesis by (auto simp: nth_list_update)
    qed
  qed
  have 3: "\<forall>k. k \<notin> set (n # ns) \<longrightarrow> prev' ! k = prev ! k"
    using keep by (auto simp: nth_list_update)
  from 1 2 3 len show ?case by auto
qed


lemma zip_map_gates:
  "map (\<lambda>(q, n). Gate n [] [q]) (zip (map g xs) (map f xs)) = map (\<lambda>x. Gate (f x) [] [g x]) xs"
  by (induction xs) simp_all

lemma layer_loop:
  assumes ch: "\<And>r xs. xs \<noteq> [] \<Longrightarrow> fst (choice G r xs) \<in> set xs"
  shows "\<exists>rs prev gates.
      foldl (layer_body G pairs (map int [0..<N])) (rs0, replicate N None, []) (map int [0..<L])
        = (rs, prev, gates)
      \<and> length gates = L \<and> length prev = N
      \<and> (0 < L \<longrightarrow> (\<forall>q<N. prev ! q = Some (gate_name (gates ! (L - 1) ! q))))
      \<and> (\<forall>l<L. \<exists>names. length names = N \<and> set names \<subseteq> set one_qubit_gate_names
             \<and> gates ! l = map (\<lambda>(q, n). Gate n [] [q]) (zip (map int [0..<N]) names)
                   @ map (\<lambda>(a, b). Gate two_qubit_gate_name [] [a, b])
                       (pairs ! ([0, 1, 2, 3, 2, 3, 0, 1] ! (l mod 8))))
      \<and> (\<forall>l q. Suc l < L \<and> q < N \<longrightarrow> gate_name (gates ! l ! q) \<noteq> gate_name (gates ! Suc l ! q))"
proof (induction L)
  case 0
  then show ?case by simp
next
  case (Suc L)
  let ?good = "\<lambda>l layer. \<exists>names. length names = N \<and> set names \<subseteq> set one_qubit_gate_names
             \<and> layer = map (\<lambda>(q, n). Gate n [] [q]) (zip (map int [0..<N]) names)
                   @ map (\<lambda>(a, b). Gate two_qubit_gate_name [] [a, b])
                       (pairs ! ([0, 1, 2, 3, 2, 3, 0, 1] ! (l mod 8)))"
  from Suc.IH obtain rs prev gates where
    f: "foldl (layer_body G pairs (map int [0..<N])) (rs0, replicate N None, []) (map int [0..<L])
        = (rs, prev, gates)"
    and lg: "length gates = L" and lp: "length prev = N"
    and last: "0 < L \<longrightarrow> (\<forall>q<N. prev ! q = Some (gate_name (gates ! (L - 1) ! q)))"
    and good: "\<forall>l<L. ?good l (gates ! l)"
    and diff: "\<forall>l q. Suc l < L \<and> q < N \<longrightarrow> gate_name (gates ! l ! q) \<noteq> gate_name (gates ! Suc l ! q)"
    by blast
  have inr: "\<forall>n\<in>set [0..<N]. n < length prev" using lp by simp
  from one_qubit_loop[OF ch distinct_upt inr, of rs "[]"]
  obtain rs' prev' where
    o: "foldl (one_qubit_body G) (rs, prev, []) (map int [0..<N])
          = (rs', prev', map (\<lambda>n. Gate (the (prev' ! n)) [] [int n]) [0..<N])"
    and lp': "length prev' = length prev"
    and got0: "\<forall>n\<in>set [0..<N]. \<exists>nm. prev' ! n = Some nm \<and> nm \<in> set one_qubit_gate_names
               \<and> Some nm \<noteq> prev ! n"
    by auto
  have got: "\<exists>nm. prev' ! n = Some nm \<and> nm \<in> set one_qubit_gate_names \<and> Some nm \<noteq> prev ! n"
    if "n < N" for n
    using got0 that by simp
  let ?ones = "map (\<lambda>n. Gate (the (prev' ! n)) [] [int n]) [0..<N]"
  let ?twos = "map (\<lambda>(a, b). Gate two_qubit_gate_name [] [a, b])
                       (pairs ! ([0, 1, 2, 3, 2, 3, 0, 1] ! (L mod 8)))"
  let ?layer = "?ones @ ?twos"
  have m8: "nat (int L mod 8) = L mod 8" by (simp add: nat_mod_distrib)
  have step: "layer_body G pairs (map int [0..<N]) (rs, prev, gates) (int L)
      = (rs', prev', gates @ [?layer])"
    by (simp add: layer_body_def add_one_qubit_gates_def o add_two_qubit_gates_eq m8)
  have F: "foldl (layer_body G pairs (map int [0..<N])) (rs0, replicate N None, [])
             (map int [0..<Suc L]) = (rs', prev', gates @ [?layer])"
    using f step by simp
  have nameq: "gate_name (?layer ! q) = the (prev' ! q)" if "q < N" for q
    using that by (simp add: nth_append)
  have P: "\<forall>q<N. prev' ! q = Some (gate_name ((gates @ [?layer]) ! (Suc L - 1) ! q))"
  proof (intro allI impI)
    fix q assume q: "q < N"
    from got[OF q] obtain nm where "prev' ! q = Some nm" by blast
    then show "prev' ! q = Some (gate_name ((gates @ [?layer]) ! (Suc L - 1) ! q))"
      using nameq[OF q] lg by (simp add: nth_append)
  qed
  have gl: "?good L ?layer"
  proof -
    let ?names = "map (\<lambda>n. the (prev' ! n)) [0..<N]"
    have "set ?names \<subseteq> set one_qubit_gate_names"
    proof
      fix x assume "x \<in> set ?names"
      then obtain n where n: "n < N" "x = the (prev' ! n)" by auto
      from got[OF n(1)] obtain nm where "prev' ! n = Some nm" "nm \<in> set one_qubit_gate_names"
        by blast
      then show "x \<in> set one_qubit_gate_names" using n by simp
    qed
    moreover have "?ones = map (\<lambda>(q, n). Gate n [] [q]) (zip (map int [0..<N]) ?names)"
      by (simp only: zip_map_gates)
    ultimately show ?thesis by (intro exI[of _ ?names]) simp
  qed
  have G: "\<forall>l<Suc L. ?good l ((gates @ [?layer]) ! l)"
  proof (intro allI impI)
    fix l assume "l < Suc L"
    then consider "l < L" | "l = L" by linarith
    then show "?good l ((gates @ [?layer]) ! l)"
    proof cases
      case 1
      then show ?thesis using good lg by (simp add: nth_append)
    next
      case 2
      then show ?thesis using gl lg by (simp add: nth_append)
    qed
  qed
  have D: "\<forall>l q. Suc l < Suc L \<and> q < N \<longrightarrow>
        gate_name ((gates @ [?layer]) ! l ! q) \<noteq> gate_name ((gates @ [?layer]) ! Suc l ! q)"
  proof (intro allI impI)
    fix l q assume a: "Suc l < Suc L \<and> q < N"
    then consider "Suc l < L" | "Suc l = L" by linarith
    then show "gate_name ((gates @ [?layer]) ! l ! q) \<noteq> gate_name ((gates @ [?layer]) ! Suc l ! q)"
    proof cases
      case 1
      then show ?thesis using diff a lg by (simp add: nth_append)
    next
      case 2
      then have pl: "prev ! q = Some (gate_name (gates ! l ! q))" using last a by auto
      from a have qN: "q < N" by simp
      from got[OF qN] obtain nm where nm: "prev' ! q = Some nm" "Some nm \<noteq> prev ! q" by blast
      have "gate_name ((gates @ [?layer]) ! Suc l ! q) = nm"
        using 2 lg nameq[of q] a nm by (simp add: nth_append)
      moreover have "gate_name ((gates @ [?layer]) ! l ! q) = gate_name (gates ! l ! q)"
        using 2 lg by (simp add: nth_append)
      ultimately show ?thesis using nm pl by auto
    qed
  qed
  from F lg lp lp' P G D show ?case
    by (intro exI[of _ rs'] exI[of _ prev'] exI[of _ "gates @ [?layer]"]) simp
qed


lemma generate_unfold:
  assumes "0 \<le> seed" "seed < 2 ^ 32" "0 \<le> nrow" "0 \<le> ncol" "0 \<le> nlayer"
  shows "\<exists>pairs. pair_groups nrow ncol = Inr pairs
       \<and> generate G nrow ncol nlayer seed =
           (case foldl (layer_body G pairs (map int [0..<nat (nrow * ncol)]))
                   (seeded G seed, replicate (nat (nrow * ncol)) None, [])
                   (map int [0..<nat nlayer]) of
              (rand_state, previous_gate, gates) \<Rightarrow>
                Inr (Circuit gates nrow ncol nlayer two_qubit_gate_name seed))"
proof -
  have p: "0 \<le> nrow * ncol" using assms by simp
  obtain pairs where pg: "pair_groups nrow ncol = Inr pairs"
    using assms by (simp add: pair_groups_def ndindex_rows)
  show ?thesis
    using assms pg upto_nat[OF p] upto_nat[of nlayer]
    by (simp add: generate_def RandomState_def Let_def)
qed

text \<open>
  Claim C10, as amended. Let \<^verbatim>\<open>choice\<close> return a member of the list it is given, and
  let \<open>nrow, ncol \<ge> 1\<close>, \<open>nlayer \<ge> 0\<close> and \<open>0 \<le> seed < 2\<^sup>3\<^sup>2\<close>. Then the generator
  returns a circuit of exactly \<open>nlayer\<close> layers. Every layer is one one-qubit gate for
  each qubit, in increasing qubit order and with a name among sqrtX, sqrtY and sqrtW,
  followed by the ISWAP gates on the pair group that the pattern
  \<open>[0, 1, 2, 3, 2, 3, 0, 1]\<close> selects at the layer number modulo 8. No qubit has the
  same one-qubit gate name in two consecutive layers.
\<close>

theorem generated_circuit_layers:
  assumes ch: "\<And>r xs. xs \<noteq> [] \<Longrightarrow> fst (choice G r xs) \<in> set xs"
    and dims: "1 \<le> nrow" "1 \<le> ncol" "0 \<le> nlayer"
    and seed: "0 \<le> seed" "seed < 2 ^ 32"
  shows "\<exists>gates pairs.
      generate G nrow ncol nlayer seed = Inr (Circuit gates nrow ncol nlayer ''ISWAP'' seed)
      \<and> pair_groups nrow ncol = Inr pairs
      \<and> length gates = nat nlayer
      \<and> (\<forall>l<nat nlayer. \<exists>names.
             length names = nat (nrow * ncol)
             \<and> set names \<subseteq> {''sqrtX'', ''sqrtY'', ''sqrtW''}
             \<and> gates ! l = map (\<lambda>(q, n). Gate n [] [q]) (zip [0..nrow * ncol - 1] names)
                   @ map (\<lambda>(a, b). Gate ''ISWAP'' [] [a, b])
                       (pairs ! ([0, 1, 2, 3, 2, 3, 0, 1] ! (l mod 8))))
      \<and> (\<forall>l q. Suc l < nat nlayer \<and> q < nat (nrow * ncol) \<longrightarrow>
             gate_name (gates ! l ! q) \<noteq> gate_name (gates ! Suc l ! q))"
proof -
  have p: "0 \<le> nrow * ncol" using dims by simp
  from generate_unfold[of seed nrow ncol nlayer G] seed dims
  obtain pairs where pg: "pair_groups nrow ncol = Inr pairs"
    and g: "generate G nrow ncol nlayer seed =
           (case foldl (layer_body G pairs (map int [0..<nat (nrow * ncol)]))
                   (seeded G seed, replicate (nat (nrow * ncol)) None, [])
                   (map int [0..<nat nlayer]) of
              (rand_state, previous_gate, gates) \<Rightarrow>
                Inr (Circuit gates nrow ncol nlayer two_qubit_gate_name seed))"
    by auto
  from layer_loop[OF ch, of pairs "nat (nrow * ncol)" "seeded G seed" "nat nlayer"]
  obtain rs prev gates where
    f: "foldl (layer_body G pairs (map int [0..<nat (nrow * ncol)]))
          (seeded G seed, replicate (nat (nrow * ncol)) None, []) (map int [0..<nat nlayer])
        = (rs, prev, gates)"
    and lg: "length gates = nat nlayer"
    and good: "\<forall>l<nat nlayer. \<exists>names. length names = nat (nrow * ncol)
             \<and> set names \<subseteq> set one_qubit_gate_names
             \<and> gates ! l = map (\<lambda>(q, n). Gate n [] [q]) (zip (map int [0..<nat (nrow * ncol)]) names)
                   @ map (\<lambda>(a, b). Gate two_qubit_gate_name [] [a, b])
                       (pairs ! ([0, 1, 2, 3, 2, 3, 0, 1] ! (l mod 8)))"
    and diff: "\<forall>l q. Suc l < nat nlayer \<and> q < nat (nrow * ncol) \<longrightarrow>
             gate_name (gates ! l ! q) \<noteq> gate_name (gates ! Suc l ! q)"
    by blast
  have 1: "generate G nrow ncol nlayer seed = Inr (Circuit gates nrow ncol nlayer ''ISWAP'' seed)"
    using g f by (simp add: two_qubit_gate_name_def)
  have 2: "\<forall>l<nat nlayer. \<exists>names.
             length names = nat (nrow * ncol)
             \<and> set names \<subseteq> {''sqrtX'', ''sqrtY'', ''sqrtW''}
             \<and> gates ! l = map (\<lambda>(q, n). Gate n [] [q]) (zip [0..nrow * ncol - 1] names)
                   @ map (\<lambda>(a, b). Gate ''ISWAP'' [] [a, b])
                       (pairs ! ([0, 1, 2, 3, 2, 3, 0, 1] ! (l mod 8)))"
    using good unfolding upto_nat[OF p] one_qubit_gate_names_def two_qubit_gate_name_def
    by simp
  from 1 2 pg lg diff show ?thesis by blast
qed

theorem generated_circuit_layers_witness:
  "(1::int) \<le> 1 \<and> (1::int) \<le> 2 \<and> (0::int) \<le> 3 \<and> (0::int) \<le> 7 \<and> (7::int) < 2 ^ 32
   \<and> generate counting_random 1 2 3 7
       = Inr (Circuit [[Gate ''sqrtY'' [] [0], Gate ''sqrtW'' [] [1]],
                       [Gate ''sqrtW'' [] [0], Gate ''sqrtX'' [] [1]],
                       [Gate ''sqrtY'' [] [0], Gate ''sqrtY'' [] [1], Gate ''ISWAP'' [] [0, 1]]]
                1 2 3 ''ISWAP'' 7)
   \<and> pair_groups 1 2 = Inr [[], [], [(0, 1)], []]"
proof -
  have ch: "\<And>r xs. xs \<noteq> [] \<Longrightarrow> fst (choice counting_random r xs) \<in> set xs"
    by (simp add: counting_random_def)
  have d: "(1::int) \<le> 1" "(1::int) \<le> 2" "(0::int) \<le> 3" "(0::int) \<le> 7" "(7::int) < 2 ^ 32"
    by simp_all
  have e: "generate counting_random 1 2 3 7
       = Inr (Circuit [[Gate ''sqrtY'' [] [0], Gate ''sqrtW'' [] [1]],
                       [Gate ''sqrtW'' [] [0], Gate ''sqrtX'' [] [1]],
                       [Gate ''sqrtY'' [] [0], Gate ''sqrtY'' [] [1], Gate ''ISWAP'' [] [0, 1]]]
                1 2 3 ''ISWAP'' 7)"
    by code_simp
  have pg: "pair_groups 1 2 = Inr [[], [], [(0, 1)], []]"
    by code_simp
  from generated_circuit_layers[OF ch d] e pg show ?thesis by simp
qed

text \<open>
  Claim C10 as stated, for every seed, fails: \<^verbatim>\<open>np.random.RandomState\<close> refuses a
  negative seed, and the generator produces no circuit.
\<close>

theorem negative_seed_counterexample:
  "generate counting_random 1 1 0 (- 1) = Inl ValueError"
  by (simp add: generate_def RandomState_def)

section \<open>The factorization of the two-site operator\<close>

lemmas nb_defs = exp_pauli_zz_def numeric_backend_def n_reshape_def n_expm_diagonal_def n_scale_def
  PAULI_ZZ_def PAULI_Z_def n_einsum_def n_array_def

lemma zz_shape: "shape (exp_pauli_zz (numeric_backend svd) J tau) = [2, 2, 2, 2]"
  by (simp add: nb_defs)

lemma zz_el:
  assumes "x < 2" "y < 2" "u < 2" "v < 2"
  shows "el (exp_pauli_zz (numeric_backend svd) J tau) [x, y, u, v] =
     (if x = u \<and> y = v
      then exp (complex_of_real ((if x = y then 1 else - 1) * (J * tau))) else 0)"
proof -
  have two: "Suc (Suc 0) = 2" by simp
  have "x = 0 \<or> x = 1" "y = 0 \<or> y = 1" "u = 0 \<or> u = 1" "v = 0 \<or> v = 1"
    using assms by auto
  then show ?thesis
    by (elim disjE; simp add: nb_defs two)
qed

lemma factor_product_h:
  assumes "svd ''xyuv->xys,uvs'' t = (U, s, V)"
  shows "el (contract_gate_bond_h (horizontal_pair_site_operator (numeric_backend svd) t)) [x, y, u, v]
     = (\<Sum>k\<leftarrow>[0..<shape U ! 2]. (el U [x, y, k] * el s [k] ^ 2) * (el V [u, v, k] * el s [k] ^ 2))"
  using assms
  by (simp add: contract_gate_bond_h_def horizontal_pair_site_operator_def numeric_backend_def
      n_einsum_def n_power_def Let_def)

lemma factor_product_v:
  assumes "svd ''xyuv->sxy,suv'' t = (U, s, V)"
  shows "el (contract_gate_bond_v (vertical_pair_site_operator (numeric_backend svd) t)) [x, y, u, v]
     = (\<Sum>k\<leftarrow>[0..<shape U ! 0]. (el U [k, x, y] * el s [k] ^ 2) * (el V [k, u, v] * el s [k] ^ 2))"
  using assms
  by (simp add: contract_gate_bond_v_def vertical_pair_site_operator_def numeric_backend_def
      n_einsum_def n_power_def Let_def)

lemma upt4: "[0..<4] = [0, 1, 2, 3]"
  by (simp add: upt_rec)

lemma product_h_0000:
  "el (contract_gate_bond_h (horizontal_pair_site_operator (numeric_backend diagonal_svd)
         (exp_pauli_zz (numeric_backend diagonal_svd) J tau))) [0, 0, 0, 0]
     = exp (complex_of_real (J * tau)) ^ 4"
proof -
  let ?T = "exp_pauli_zz (numeric_backend diagonal_svd) J tau"
  obtain U s V where d: "diagonal_svd ''xyuv->xys,uvs'' ?T = (U, s, V)"
    by (cases "diagonal_svd ''xyuv->xys,uvs'' ?T") auto
  have U: "shape U = [2, 2, 4]" "\<And>k. el U [0, 0, k] = (if k = 0 then 1 else 0)"
    and V: "\<And>k. el V [0, 0, k] = (if k = 0 then 1 else 0)"
    and s: "el s [0] = el ?T [0, 0, 0, 0]"
    using d by (auto simp: diagonal_svd_def Let_def zz_shape)
  show ?thesis
    unfolding factor_product_h[where svd = diagonal_svd, OF d] by (simp add: U V s upt4 zz_el power4_eq_xxxx power2_eq_square)
qed

lemma product_v_0000:
  "el (contract_gate_bond_v (vertical_pair_site_operator (numeric_backend diagonal_svd)
         (exp_pauli_zz (numeric_backend diagonal_svd) J tau))) [0, 0, 0, 0]
     = exp (complex_of_real (J * tau)) ^ 4"
proof -
  let ?T = "exp_pauli_zz (numeric_backend diagonal_svd) J tau"
  obtain U s V where d: "diagonal_svd ''xyuv->sxy,suv'' ?T = (U, s, V)"
    by (cases "diagonal_svd ''xyuv->sxy,suv'' ?T") auto
  have U: "shape U = [4, 2, 2]" "\<And>k. el U [k, 0, 0] = (if k = 0 then 1 else 0)"
    and V: "\<And>k. el V [k, 0, 0] = (if k = 0 then 1 else 0)"
    and s: "el s [0] = el ?T [0, 0, 0, 0]"
    using d by (auto simp: diagonal_svd_def Let_def zz_shape)
  show ?thesis
    unfolding factor_product_v[where svd = diagonal_svd, OF d] by (simp add: U V s upt4 zz_el power4_eq_xxxx power2_eq_square)
qed

lemma diagonal_svd_decomposes_h:
  "decomposes_h (exp_pauli_zz (numeric_backend diagonal_svd) J tau)
     (diagonal_svd ''xyuv->xys,uvs'' (exp_pauli_zz (numeric_backend diagonal_svd) J tau))"
  apply (simp add: decomposes_h_def diagonal_svd_def Let_def zz_shape upt_rec)
  apply (simp add: zz_el)
  done

lemma exp_pow4_eq_iff: "exp (complex_of_real a) ^ 4 = exp (complex_of_real a) \<longleftrightarrow> a = 0"
proof -
  have "exp (complex_of_real a) ^ 4 = complex_of_real (exp (4 * a))"
    using exp_of_nat_mult[of 4 a] by (simp only: exp_of_real of_real_power) simp
  moreover have "exp (complex_of_real a) = complex_of_real (exp a)"
    by (simp only: exp_of_real)
  ultimately show ?thesis by (simp only: of_real_eq_iff exp_inj_iff) simp
qed

lemma diagonal_svd_decomposes_v:
  "decomposes_v (exp_pauli_zz (numeric_backend diagonal_svd) J tau)
     (diagonal_svd ''xyuv->sxy,suv'' (exp_pauli_zz (numeric_backend diagonal_svd) J tau))"
  apply (simp add: decomposes_v_def diagonal_svd_def Let_def zz_shape upt_rec)
  apply (simp add: zz_el)
  done

lemma zz_0000: "el (exp_pauli_zz (numeric_backend svd) J tau) [0, 0, 0, 0] = exp (complex_of_real (J * tau))"
  by (simp add: zz_el)

lemma reconstruction_only_without_coupling:
  "el (contract_gate_bond_h (horizontal_pair_site_operator (numeric_backend diagonal_svd)
         (exp_pauli_zz (numeric_backend diagonal_svd) J tau))) [0, 0, 0, 0]
     = el (exp_pauli_zz (numeric_backend diagonal_svd) J tau) [0, 0, 0, 0]
   \<longleftrightarrow> J * tau = 0"
  unfolding product_h_0000 zz_0000 by (rule exp_pow4_eq_iff)

text \<open>
  Claim C2 says that the two factors contract over the gate bond to the two-site
  operator \<open>exp (\<tau> J Z \<otimes> Z)\<close>, the square root of the singular values being absorbed
  into each factor. The code does not do this: it squares the singular values
  (\<^verbatim>\<open>s = s ** 2\<close>) and multiplies each factor by the square, so that the factors
  contract to \<open>U \<sqdot> diag s\<^sup>4 \<sqdot> V\<close>. For the default coupling \<open>J = 1\<close> and step
  \<open>\<tau> = 0.01\<close>, with both arithmetic and decomposition exact: the entry at index
  \<open>(0, 0, 0, 0)\<close> of the operator is \<open>e\<^sup>0\<^sup>.\<^sup>0\<^sup>1\<close>, the entry of the contraction of the
  factors is its fourth power, for the horizontal and for the vertical variant, and
  the two are different.
\<close>

theorem squared_singular_values_break_reconstruction:
  "decomposes_h (exp_pauli_zz (numeric_backend diagonal_svd) 1 (1 / 100))
     (diagonal_svd ''xyuv->xys,uvs'' (exp_pauli_zz (numeric_backend diagonal_svd) 1 (1 / 100)))
   \<and> decomposes_v (exp_pauli_zz (numeric_backend diagonal_svd) 1 (1 / 100))
     (diagonal_svd ''xyuv->sxy,suv'' (exp_pauli_zz (numeric_backend diagonal_svd) 1 (1 / 100)))
   \<and> el (exp_pauli_zz (numeric_backend diagonal_svd) 1 (1 / 100)) [0, 0, 0, 0]
       = exp (complex_of_real (1 / 100))
   \<and> el (contract_gate_bond_h (horizontal_pair_site_operator (numeric_backend diagonal_svd)
            (exp_pauli_zz (numeric_backend diagonal_svd) 1 (1 / 100)))) [0, 0, 0, 0]
       = exp (complex_of_real (1 / 100)) ^ 4
   \<and> el (contract_gate_bond_v (vertical_pair_site_operator (numeric_backend diagonal_svd)
            (exp_pauli_zz (numeric_backend diagonal_svd) 1 (1 / 100)))) [0, 0, 0, 0]
       = exp (complex_of_real (1 / 100)) ^ 4
   \<and> exp (complex_of_real (1 / 100)) ^ 4 \<noteq> exp (complex_of_real (1 / 100))"
proof -
  have n: "exp (complex_of_real (1 / 100)) ^ 4 \<noteq> exp (complex_of_real (1 / 100))"
    using exp_pow4_eq_iff[of "1 / 100"] by simp
  have z: "el (exp_pauli_zz (numeric_backend diagonal_svd) 1 (1 / 100)) [0, 0, 0, 0]
       = exp (complex_of_real (1 / 100))"
    using zz_0000[of diagonal_svd 1 "1 / 100"] by simp
  have h: "el (contract_gate_bond_h (horizontal_pair_site_operator (numeric_backend diagonal_svd)
            (exp_pauli_zz (numeric_backend diagonal_svd) 1 (1 / 100)))) [0, 0, 0, 0]
       = exp (complex_of_real (1 / 100)) ^ 4"
    using product_h_0000[of 1 "1 / 100"] by simp
  have v: "el (contract_gate_bond_v (vertical_pair_site_operator (numeric_backend diagonal_svd)
            (exp_pauli_zz (numeric_backend diagonal_svd) 1 (1 / 100)))) [0, 0, 0, 0]
       = exp (complex_of_real (1 / 100)) ^ 4"
    using product_v_0000[of 1 "1 / 100"] by simp
  from n z h v diagonal_svd_decomposes_h[of 1 "1 / 100"] diagonal_svd_decomposes_v[of 1 "1 / 100"]
  show ?thesis by (intro conjI)
qed

section \<open>The update of one edge\<close>

lemma update_horizontal_spec:
  assumes "a \<noteq> b"
  shows "update_horizontal spec_koala k q ((a, b), (op_a, op_b)) =
     q(a := fst (spec_reduce_y (spec_contract_z (q a) op_a) (spec_contract_z (q b) op_b)
                   (ImplicitRandomizedSVD k)),
       b := snd (spec_reduce_y (spec_contract_z (q a) op_a) (spec_contract_z (q b) op_b)
                   (ImplicitRandomizedSVD k)))"
  using assms by (simp add: update_horizontal_def spec_koala_def Let_def fun_upd_twist)

lemma update_vertical_spec:
  assumes "a \<noteq> b"
  shows "update_vertical spec_koala k q ((a, b), (op_a, op_b)) =
     q(a := fst (spec_reduce_x (spec_contract_z (q a) op_a) (spec_contract_z (q b) op_b)
                   (ImplicitRandomizedSVD k)),
       b := snd (spec_reduce_x (spec_contract_z (q a) op_a) (spec_contract_z (q b) op_b)
                   (ImplicitRandomizedSVD k)))"
  using assms by (simp add: update_vertical_def spec_koala_def Let_def fun_upd_twist)

lemma truncated_le: "0 \<le> k \<Longrightarrow> int (min d (nat k)) \<le> k"
  by simp

text \<open>
  Claim C4, as amended. For a max rank \<open>k \<ge> 0\<close>, one update of a horizontal edge
  \<open>(a, b)\<close> with a horizontal factor pair, and one update of a vertical edge with a
  vertical factor pair, leaves the bond shared by \<open>a\<close> and \<open>b\<close> with a dimension of at
  most \<open>k\<close> and leaves the dimension of the three other bonds of \<open>a\<close> and of \<open>b\<close> as it
  was. The tensor of every site other than \<open>a\<close> and \<open>b\<close> is untouched, so that every
  bond that touches neither \<open>a\<close> nor \<open>b\<close> is unchanged in dimension and in values.
\<close>

theorem bond_update_dimensions_and_frame:
  fixes q :: "coord \<Rightarrow> stensor" and a b :: coord and k :: int
    and op_a op_b vop_a vop_b :: stensor
  defines "qh \<equiv> update_horizontal spec_koala k q ((a, b), (op_a, op_b))"
  defines "qv \<equiv> update_vertical spec_koala k q ((a, b), (vop_a, vop_b))"
  assumes ab: "a \<noteq> b" and k: "0 \<le> k"
    and h: "dims op_a = [1, r, 1, 1, 2, 2]" "dims op_b = [1, 1, 1, r, 2, 2]"
    and v: "dims vop_a = [1, 1, r, 1, 2, 2]" "dims vop_b = [r, 1, 1, 1, 2, 2]"
  shows "(int (dims (qh a) ! 1) \<le> k \<and> int (dims (qh b) ! 3) \<le> k
          \<and> dims (qh a) ! 0 = dims (q a) ! 0 \<and> dims (qh a) ! 2 = dims (q a) ! 2
          \<and> dims (qh a) ! 3 = dims (q a) ! 3
          \<and> dims (qh b) ! 0 = dims (q b) ! 0 \<and> dims (qh b) ! 1 = dims (q b) ! 1
          \<and> dims (qh b) ! 2 = dims (q b) ! 2
          \<and> (\<forall>c. c \<noteq> a \<and> c \<noteq> b \<longrightarrow> qh c = q c)
          \<and> (\<forall>c d. c \<noteq> a \<and> c \<noteq> b \<and> d \<noteq> a \<and> d \<noteq> b \<longrightarrow> bond_unchanged q qh (c, d)))
       \<and> (int (dims (qv a) ! 2) \<le> k \<and> int (dims (qv b) ! 0) \<le> k
          \<and> dims (qv a) ! 0 = dims (q a) ! 0 \<and> dims (qv a) ! 1 = dims (q a) ! 1
          \<and> dims (qv a) ! 3 = dims (q a) ! 3
          \<and> dims (qv b) ! 1 = dims (q b) ! 1 \<and> dims (qv b) ! 2 = dims (q b) ! 2
          \<and> dims (qv b) ! 3 = dims (q b) ! 3
          \<and> (\<forall>c. c \<noteq> a \<and> c \<noteq> b \<longrightarrow> qv c = q c)
          \<and> (\<forall>c d. c \<noteq> a \<and> c \<noteq> b \<and> d \<noteq> a \<and> d \<noteq> b \<longrightarrow> bond_unchanged q qv (c, d)))"
proof
  show "int (dims (qh a) ! 1) \<le> k \<and> int (dims (qh b) ! 3) \<le> k
          \<and> dims (qh a) ! 0 = dims (q a) ! 0 \<and> dims (qh a) ! 2 = dims (q a) ! 2
          \<and> dims (qh a) ! 3 = dims (q a) ! 3
          \<and> dims (qh b) ! 0 = dims (q b) ! 0 \<and> dims (qh b) ! 1 = dims (q b) ! 1
          \<and> dims (qh b) ! 2 = dims (q b) ! 2
          \<and> (\<forall>c. c \<noteq> a \<and> c \<noteq> b \<longrightarrow> qh c = q c)
          \<and> (\<forall>c d. c \<noteq> a \<and> c \<noteq> b \<and> d \<noteq> a \<and> d \<noteq> b \<longrightarrow> bond_unchanged q qh (c, d))"
    using ab h truncated_le[OF k] unfolding qh_def update_horizontal_spec[OF ab]
    by (simp add: spec_reduce_y_def spec_contract_z_def bond_unchanged_def)
  show "int (dims (qv a) ! 2) \<le> k \<and> int (dims (qv b) ! 0) \<le> k
          \<and> dims (qv a) ! 0 = dims (q a) ! 0 \<and> dims (qv a) ! 1 = dims (q a) ! 1
          \<and> dims (qv a) ! 3 = dims (q a) ! 3
          \<and> dims (qv b) ! 1 = dims (q b) ! 1 \<and> dims (qv b) ! 2 = dims (q b) ! 2
          \<and> dims (qv b) ! 3 = dims (q b) ! 3
          \<and> (\<forall>c. c \<noteq> a \<and> c \<noteq> b \<longrightarrow> qv c = q c)
          \<and> (\<forall>c d. c \<noteq> a \<and> c \<noteq> b \<and> d \<noteq> a \<and> d \<noteq> b \<longrightarrow> bond_unchanged q qv (c, d))"
    using ab v truncated_le[OF k] unfolding qv_def update_vertical_spec[OF ab]
    by (simp add: spec_reduce_x_def spec_contract_z_def bond_unchanged_def)
qed

theorem bond_update_dimensions_and_frame_witness:
  "((0::int, 0::int) \<noteq> (0, 1)) \<and> (0::int) \<le> 2
   \<and> dims h_factor_a = [1, 4, 1, 1, 2, 2] \<and> dims h_factor_b = [1, 1, 1, 4, 2, 2]
   \<and> dims v_factor_a = [1, 1, 4, 1, 2, 2] \<and> dims v_factor_b = [4, 1, 1, 1, 2, 2]
   \<and> int (dims (update_horizontal spec_koala 2 (spec_random 2 3 2 ''numpy'')
                  (((0, 0), (0, 1)), (h_factor_a, h_factor_b)) (0, 0)) ! 1) \<le> 2
   \<and> dims (update_horizontal spec_koala 2 (spec_random 2 3 2 ''numpy'')
             (((0, 0), (0, 1)), (h_factor_a, h_factor_b)) (0, 1)) ! 1
       = dims (spec_random 2 3 2 ''numpy'' (0, 1)) ! 1
   \<and> bond_unchanged (spec_random 2 3 2 ''numpy'')
        (update_horizontal spec_koala 2 (spec_random 2 3 2 ''numpy'')
           (((0, 0), (0, 1)), (h_factor_a, h_factor_b))) ((0, 2), (1, 2))"
proof -
  have ab: "(0::int, 0::int) \<noteq> (0, 1)" and k: "(0::int) \<le> 2" by simp_all
  have h: "dims h_factor_a = [1, 4, 1, 1, 2, 2]" "dims h_factor_b = [1, 1, 1, 4, 2, 2]"
    by (simp_all add: h_factor_a_def h_factor_b_def)
  have v: "dims v_factor_a = [1, 1, 4, 1, 2, 2]" "dims v_factor_b = [4, 1, 1, 1, 2, 2]"
    by (simp_all add: v_factor_a_def v_factor_b_def)
  from bond_update_dimensions_and_frame[OF ab k h v, where q = "spec_random 2 3 2 ''numpy''"] ab k h v
  show ?thesis by simp
qed

text \<open>
  Claim C4 as stated fails for the other bonds that touch \<open>a\<close> or \<open>b\<close>: on a lattice of
  one row and three columns the update of the edge \<open>((0, 0), (0, 1))\<close> replaces the
  tensor at \<open>(0, 1)\<close>, which carries the bond \<open>((0, 1), (0, 2))\<close>.
\<close>

theorem neighbouring_bond_counterexample:
  "\<not> bond_unchanged (spec_random 1 3 2 ''numpy'')
        (update_horizontal spec_koala 2 (spec_random 1 3 2 ''numpy'')
           (((0, 0), (0, 1)), (h_factor_a, h_factor_b))) ((0, 1), (0, 2))"
  by (simp add: bond_unchanged_def update_horizontal_spec spec_reduce_y_def spec_random_def)

end
